theory Spec2Isabelle
  imports Main "HOL-Library.Word"
begin

section \<open>The media decoder of ring-daemon (src/media/media_decoder.cpp)\<close>

text \<open>
  A shallow embedding of \<^verbatim>\<open>ring::MediaDecoder\<close>. The class orchestrates libav
  (demuxer, codec), an optional hardware accelerator, a resampler and a ring buffer.
  Each member function becomes a HOL function over a record of the members; what the
  collaborators answer in one call (return codes, the frame a codec hands back, whether
  the accelerator has failed) is an argument of the function, and what the function
  asks of them (releasing a packet, extracting a frame, pushing a buffer) is a list of
  events it returns. The build modelled is the one with \<^verbatim>\<open>RING_VIDEO\<close> and
  \<^verbatim>\<open>RING_ACCEL\<close> defined and \<^verbatim>\<open>_WIN32\<close> undefined.
\<close>

subsection \<open>Constants of libav\<close>

text \<open>
  The numeric values of libav's error codes and pixel formats come from libav's headers,
  which are not part of the repository, and some depend on the platform and the library
  version. The embedding takes them as a parameter \<open>K\<close>.
\<close>

record libav =
  AVERROR_EAGAIN :: int
  AVERROR_EOF :: int
  AV_NOPTS_VALUE :: int
  AV_TIME_BASE :: int
  AV_PIX_FMT_YUV420P :: int
  AV_PIX_FMT_YUV422P :: int
  AV_PIX_FMT_YUV444P :: int
  AV_PIX_FMT_YUV440P :: int
  AV_PIX_FMT_YUVJ420P :: int
  AV_PIX_FMT_YUVJ422P :: int
  AV_PIX_FMT_YUVJ444P :: int
  AV_PIX_FMT_YUVJ440P :: int
  AV_SAMPLE_FMT_S16 :: int
  AV_SAMPLE_FMT_FLTP :: int

text \<open>Error codes are negative; the members of an enumeration are pairwise different.\<close>

definition errors_negative :: "libav \<Rightarrow> bool" where
  "errors_negative K \<longleftrightarrow> AVERROR_EAGAIN K < 0 \<and> AVERROR_EOF K < 0"

definition pix_fmts_distinct :: "libav \<Rightarrow> bool" where
  "pix_fmts_distinct K \<longleftrightarrow>
     distinct [AV_PIX_FMT_YUVJ420P K, AV_PIX_FMT_YUVJ422P K, AV_PIX_FMT_YUVJ444P K,
               AV_PIX_FMT_YUVJ440P K, AV_PIX_FMT_YUV420P K, AV_PIX_FMT_YUV422P K,
               AV_PIX_FMT_YUV444P K, AV_PIX_FMT_YUV440P K]"

text \<open>The values of FFmpeg 3.x on Linux, for running the model on concrete inputs.\<close>

definition ffmpeg_linux :: libav where
  "ffmpeg_linux =
     \<lparr> AVERROR_EAGAIN = - 11, AVERROR_EOF = - 541478725,
       AV_NOPTS_VALUE = - 9223372036854775808, AV_TIME_BASE = 1000000,
       AV_PIX_FMT_YUV420P = 0, AV_PIX_FMT_YUV422P = 4, AV_PIX_FMT_YUV444P = 5,
       AV_PIX_FMT_YUV440P = 33, AV_PIX_FMT_YUVJ420P = 12, AV_PIX_FMT_YUVJ422P = 13,
       AV_PIX_FMT_YUVJ444P = 14, AV_PIX_FMT_YUVJ440P = 34,
       AV_SAMPLE_FMT_S16 = 1, AV_SAMPLE_FMT_FLTP = 8 \<rparr>"

subsection \<open>Pixel format normalisation\<close>

text \<open>\<^verbatim>\<open>MediaDecoder::correctPixFmt\<close>: a switch over four case labels, with a default.\<close>

definition correctPixFmt :: "libav \<Rightarrow> int \<Rightarrow> int" where
  "correctPixFmt K input_pix_fmt =
     (if input_pix_fmt = AV_PIX_FMT_YUVJ420P K then AV_PIX_FMT_YUV420P K
      else if input_pix_fmt = AV_PIX_FMT_YUVJ422P K then AV_PIX_FMT_YUV422P K
      else if input_pix_fmt = AV_PIX_FMT_YUVJ444P K then AV_PIX_FMT_YUV444P K
      else if input_pix_fmt = AV_PIX_FMT_YUVJ440P K then AV_PIX_FMT_YUV440P K
      else input_pix_fmt)"

subsection \<open>Integer conversions\<close>

text \<open>
  The source stores a \<^verbatim>\<open>size_t\<close> and an \<^verbatim>\<open>unsigned\<close> into an \<^verbatim>\<open>int\<close>, and casts an
  \<^verbatim>\<open>int\<close> to \<^verbatim>\<open>unsigned\<close> and to \<^verbatim>\<open>size_t\<close>. The conversions are modular; they are
  written out on unbounded numbers.
\<close>

definition int_of_unsigned :: "nat \<Rightarrow> int" where
  "int_of_unsigned u = (int u + 2 ^ 31) mod 2 ^ 32 - 2 ^ 31"

definition unsigned_of_int :: "int \<Rightarrow> nat" where
  "unsigned_of_int x = nat (x mod 2 ^ 32)"

definition size_t_of_int :: "int \<Rightarrow> nat" where
  "size_t_of_int x = nat (x mod 2 ^ 64)"

subsection \<open>Data\<close>

text \<open>
  Modelled from the spec: the \<^verbatim>\<open>Status\<close> enumeration is declared in media_decoder.h,
  which is not among the sources; these are the six outcomes section 4.3 lists.
\<close>

datatype Status = Success | FrameFinished | EOFError | ReadError | DecodeError | RestartRequired

datatype AVMediaType =
  AVMEDIA_TYPE_UNKNOWN | AVMEDIA_TYPE_VIDEO | AVMEDIA_TYPE_AUDIO | AVMEDIA_TYPE_DATA
  | AVMEDIA_TYPE_SUBTITLE | AVMEDIA_TYPE_ATTACHMENT

text \<open>\<^verbatim>\<open>AudioFormat\<close>: two \<^verbatim>\<open>unsigned\<close> members.\<close>

record AudioFormat =
  fmt_sample_rate :: nat
  fmt_nb_channels :: nat

text \<open>
  The members of an \<^verbatim>\<open>AVFrame\<close> the decoder reads or writes. \<open>frame_data\<close> stands for
  the planes and \<^verbatim>\<open>extended_data\<close>: a handle, whose contents only the collaborators touch.
\<close>

record AVFrame =
  frame_format :: int
  frame_pts :: int
  frame_sample_rate :: int
  frame_nb_samples :: int
  frame_data :: nat

text \<open>
  \<^verbatim>\<open>DeviceParams\<close> (media_device.h). The strings stand for what \<^verbatim>\<open>c_str()\<close> yields.
  \<^verbatim>\<open>framerate\<close> is a \<^verbatim>\<open>rational<double>\<close>; floating point is outside the model, so the
  record carries the two things \<open>openInput\<close> asks of it: whether it converts to true, and
  the text \<^verbatim>\<open>ring::to_string(params.framerate.real())\<close> renders.
\<close>

record DeviceParams =
  input :: string
  format :: string
  width :: nat
  height :: nat
  framerate_nonzero :: bool
  framerate_text :: string
  pixel_format :: string
  channel :: nat
  loop :: string
  sdp_flags :: string
  offset_x :: nat
  offset_y :: nat

datatype HardwareAccel = HardwareAccel string

record AVCodecContext =
  ctx_thread_count :: nat
  ctx_channels :: int
  ctx_sample_rate :: int
  ctx_sample_fmt :: int
  ctx_opaque :: "HardwareAccel option"

text \<open>
  Modelled from the spec: \<^verbatim>\<open>AudioBuffer\<close> (audio/audiobuffer.h) is not among the
  sources. Section 4.5 has \<open>setFormat\<close> reshape the buffer to a sample rate and a channel
  count and \<open>resize\<close> size it to a number of frames; the samples are written by the
  conversion routines and the resampler, which are collaborators.
\<close>

record AudioBuffer =
  buf_format :: AudioFormat
  buf_frames :: nat
  buf_samples :: "int list list"

definition setFormat :: "AudioBuffer \<Rightarrow> AudioFormat \<Rightarrow> AudioBuffer" where
  "setFormat b f = b\<lparr>buf_format := f\<rparr>"

definition resize :: "AudioBuffer \<Rightarrow> nat \<Rightarrow> AudioBuffer" where
  "resize b n = b\<lparr>buf_frames := n\<rparr>"

text \<open>A resampler is known by the format its constructor was given.\<close>

datatype Resampler = Resampler AudioFormat

text \<open>
  An \<^verbatim>\<open>AVDictionary\<close> is a list of key/value entries; a null dictionary is the empty
  list. \<^verbatim>\<open>av_dict_set\<close> with flags 0 drops an entry of the same key and appends the new
  one. (libav compares keys without regard to case; every key below is a lower-case
  literal.)
\<close>

type_synonym AVDictionary = "(string \<times> string) list"

definition av_dict_set :: "AVDictionary \<Rightarrow> string \<Rightarrow> string \<Rightarrow> AVDictionary" where
  "av_dict_set m key val = filter (\<lambda>e. fst e \<noteq> key) m @ [(key, val)]"

definition av_dict_get :: "AVDictionary \<Rightarrow> string \<Rightarrow> string option" where
  "av_dict_get m key = map_of m key"

text \<open>
  Modelled from the spec: \<^verbatim>\<open>ring::to_string\<close> (string_utils.h) is not among the sources.
  It renders an unsigned number in decimal, as \<^verbatim>\<open>operator<<\<close> on a stream does: section 4.1
  has the geometry as "WxH", and section 3 the jitter constants as 1500 and 50 ms.
\<close>

function to_string :: "nat \<Rightarrow> string" where
  "to_string n =
     (if n < 10 then [''0123456789'' ! n]
      else to_string (n div 10) @ [''0123456789'' ! (n mod 10)])"
  by pat_completeness auto
termination
  by (relation "measure id") auto

declare to_string.simps [simp del]

text \<open>What a member function asks of its collaborators, in the order it asks.\<close>

datatype event =
    CodecClose
  | PacketUnref
  | ExtractData
  | Sleep int
  | NewResampler AudioFormat
  | RingBufferPut AudioBuffer

text \<open>Dereferencing a null pointer or reading past the stream table is undefined in C++.\<close>

datatype fault = NullDereference | OutOfRange

text \<open>
  The members of \<^verbatim>\<open>MediaDecoder\<close> (the trailing underscore of the source's names is
  dropped). \<open>max_analyze_duration\<close> is the member of \<^verbatim>\<open>inputCtx_\<close> that setup writes;
  \<open>avStream\<close> is the index of the stream \<^verbatim>\<open>avStream_\<close> points at; \<open>inputDecoder\<close> a
  handle of the codec found.
\<close>

record MediaDecoder =
  max_analyze_duration :: int
  inputDecoder :: "nat option"
  decoderCtx :: "AVCodecContext option"
  avStream :: "nat option"
  streamIndex :: int
  emulateRate :: bool
  startTime :: int
  decBuff :: AudioBuffer
  resamplingBuff :: AudioBuffer
  resampler :: "Resampler option"
  options :: AVDictionary
  enableAccel :: bool
  accel :: "HardwareAccel option"

text \<open>
  The constructor sets \<^verbatim>\<open>startTime_(AV_NOPTS_VALUE)\<close>. Modelled from the spec: the other
  members take the default member initialisers of media_decoder.h, which is not among the
  sources; section 3 has the stream index start at the sentinel -1, and the pointers are
  null.
\<close>

definition MediaDecoder_new :: "libav \<Rightarrow> MediaDecoder" where
  "MediaDecoder_new K =
     \<lparr> max_analyze_duration = 0, inputDecoder = None, decoderCtx = None, avStream = None,
       streamIndex = - 1, emulateRate = False, startTime = AV_NOPTS_VALUE K,
       decBuff = \<lparr>buf_format = \<lparr>fmt_sample_rate = 0, fmt_nb_channels = 0\<rparr>,
                  buf_frames = 0, buf_samples = []\<rparr>,
       resamplingBuff = \<lparr>buf_format = \<lparr>fmt_sample_rate = 0, fmt_nb_channels = 0\<rparr>,
                         buf_frames = 0, buf_samples = []\<rparr>,
       resampler = None, options = [], enableAccel = True, accel = None \<rparr>"

subsection \<open>openInput\<close>

text \<open>
  The constants at the head of the file: the jitter buffer holds at most 1500 packets,
  and a packet waits at most 50 milliseconds.
\<close>

definition jitterBufferMaxSize :: nat where
  "jitterBufferMaxSize = 1500"

definition jitterBufferMaxDelay_ms :: nat where
  "jitterBufferMaxDelay_ms = 50"

text \<open>
  The dictionary \<open>openInput\<close> hands to \<^verbatim>\<open>avformat_open_input\<close>: the statements of the
  source between the lookup of the input format and the opening, in their order.
\<close>

definition openInput_options :: "AVDictionary \<Rightarrow> DeviceParams \<Rightarrow> AVDictionary" where
  "openInput_options options0 params =
     (let o1 = (if width params \<noteq> 0 \<and> height params \<noteq> 0
                then av_dict_set options0 ''video_size''
                       (to_string (width params) @ ''x'' @ to_string (height params))
                else options0);
          o2 = (if framerate_nonzero params
                then av_dict_set o1 ''framerate'' (framerate_text params) else o1);
          o3 = (if offset_x params \<noteq> 0 \<or> offset_y params \<noteq> 0
                then av_dict_set (av_dict_set o2 ''offset_x'' (to_string (offset_x params)))
                       ''offset_y'' (to_string (offset_y params))
                else o2);
          o4 = (if channel params \<noteq> 0
                then av_dict_set o3 ''channel'' (to_string (channel params)) else o3);
          o5 = av_dict_set o4 ''loop'' (loop params);
          o6 = av_dict_set o5 ''sdp_flags'' (sdp_flags params);
          o7 = av_dict_set o6 ''reorder_queue_size'' (to_string jitterBufferMaxSize);
          us = jitterBufferMaxDelay_ms * 1000;
          o8 = av_dict_set o7 ''max_delay'' (to_string us)
      in if pixel_format params \<noteq> []
         then av_dict_set o8 ''pixel_format'' (pixel_format params) else o8)"

text \<open>
  What the collaborators answer during \<open>openInput\<close>: the process-wide acceleration
  flag, the result of \<^verbatim>\<open>avformat_open_input\<close>, and the entries it leaves in the
  dictionary (it replaces the dictionary by the options it did not consume).
\<close>

record open_io =
  getDecodingAccelerated :: bool
  open_input_ret :: int
  open_input_left :: "AVDictionary \<Rightarrow> AVDictionary"

definition openInput :: "MediaDecoder \<Rightarrow> DeviceParams \<Rightarrow> open_io \<Rightarrow> int \<times> MediaDecoder" where
  "openInput d params io =
     (let opts = openInput_options (options d) params;
          d1 = d\<lparr>options := opts,
                 enableAccel := (enableAccel d \<and> getDecodingAccelerated io)\<rparr>;
          ret = open_input_ret io
      in (ret, d1\<lparr>options := (if opts \<noteq> [] then open_input_left io opts else opts)\<rparr>))"

subsection \<open>setInterruptCallback, setIOContext, emulateRate, enableAccel\<close>

text \<open>
  \<open>setInterruptCallback\<close> and \<open>setIOContext\<close> write members of \<^verbatim>\<open>inputCtx_\<close> that no
  other function of the file reads; they leave the members modelled here as they are.
  Modelled from the spec: \<open>emulateRate\<close> is the inline setter of media_decoder.h, not
  among the sources, which section 4.2 calls enabling rate emulation. The two setters
  carry a suffix here, since the members they write have their names.
\<close>

definition setInterruptCallback :: "MediaDecoder \<Rightarrow> MediaDecoder" where
  "setInterruptCallback d = d"

definition setIOContext :: "MediaDecoder \<Rightarrow> MediaDecoder" where
  "setIOContext d = d"

definition emulateRate_on :: "MediaDecoder \<Rightarrow> MediaDecoder" where
  "emulateRate_on d = d\<lparr>emulateRate := True\<rparr>"

definition enableAccel_set :: "MediaDecoder \<Rightarrow> bool \<Rightarrow> MediaDecoder" where
  "enableAccel_set d enable =
     (let d1 = d\<lparr>enableAccel := enable\<rparr>
      in if \<not> enable
         then d1\<lparr>accel := None,
                 decoderCtx := (case decoderCtx d1 of
                                  None \<Rightarrow> None
                                | Some ctx \<Rightarrow> Some (ctx\<lparr>ctx_opaque := None\<rparr>))\<rparr>
         else d1)"

subsection \<open>setupFromAudioData, setupFromVideoData\<close>

text \<open>
  What the collaborators answer during a setup call: the result of
  \<^verbatim>\<open>avformat_find_stream_info\<close>; the stream table (\<^verbatim>\<open>nb_streams\<close> is an \<^verbatim>\<open>unsigned int\<close>,
  \<open>codec_type i\<close> the media kind of \<^verbatim>\<open>streams[i]\<close>); the codec found for the stream, if
  any; the context \<^verbatim>\<open>avcodec_alloc_context3\<close> and \<^verbatim>\<open>avcodec_parameters_to_context\<close> build;
  \<^verbatim>\<open>std::thread::hardware_concurrency()\<close>; the accelerator \<^verbatim>\<open>video::makeHardwareAccel\<close>
  returns, if any; \<^verbatim>\<open>av_gettime()\<close>; and the result of \<^verbatim>\<open>avcodec_open2\<close>.
\<close>

record setup_io =
  find_stream_info_ret :: int
  nb_streams :: "32 word"
  codec_type :: "nat \<Rightarrow> AVMediaType"
  find_decoder :: "nat option"
  alloc_context :: AVCodecContext
  hardware_concurrency :: nat
  makeHardwareAccel :: "HardwareAccel option"
  gettime :: int
  open2_ret :: int

text \<open>
  The loop \<^verbatim>\<open>for (size_t i = 0; streamIndex_ == -1 && i < nb_streams; ++i)
  if (streams[i] is of the kind) streamIndex_ = i;\<close> from the index \<open>i\<close> on. The
  assignment stores a \<^verbatim>\<open>size_t\<close> below \<^verbatim>\<open>nb_streams\<close> into an \<^verbatim>\<open>int\<close>.
\<close>

function scan_streams :: "AVMediaType \<Rightarrow> (nat \<Rightarrow> AVMediaType) \<Rightarrow> nat \<Rightarrow> nat \<Rightarrow> int \<Rightarrow> int" where
  "scan_streams kind types nb i idx =
     (if idx = - 1 \<and> i < nb
      then scan_streams kind types nb (i + 1)
             (if types i = kind then int_of_unsigned i else idx)
      else idx)"
  by pat_completeness auto
termination
  by (relation "measure (\<lambda>(kind, types, nb, i, idx). nb - i)") auto

declare scan_streams.simps [simp del]

definition thread_count :: "nat \<Rightarrow> nat" where
  "thread_count hc = max 1 (min 8 (hc div 2))"

definition setupFromAudioData ::
  "libav \<Rightarrow> MediaDecoder \<Rightarrow> AudioFormat \<Rightarrow> setup_io \<Rightarrow> fault + (int \<times> MediaDecoder \<times> event list)" where
  "setupFromAudioData K d0 fmt io =
     (let ev = (if decoderCtx d0 \<noteq> None then [CodecClose] else []);
          d1 = d0\<lparr>max_analyze_duration := 30 * AV_TIME_BASE K\<rparr>
      in if find_stream_info_ret io < 0 then Inr (- 1, d1, ev)
      else
        let d2 = d1\<lparr>streamIndex := scan_streams AVMEDIA_TYPE_AUDIO (codec_type io)
                                       (unat (nb_streams io)) 0 (streamIndex d1)\<rparr>
        in if streamIndex d2 = - 1 then Inr (- 1, d2, ev)
        else if streamIndex d2 < 0 \<or> int (unat (nb_streams io)) \<le> streamIndex d2
        then Inl OutOfRange
        else
          let d3 = d2\<lparr>avStream := Some (nat (streamIndex d2)),
                      inputDecoder := find_decoder io\<rparr>
          in if inputDecoder d3 = None then Inr (- 1, d3, ev)
          else
            let ctx = (alloc_context io)
                        \<lparr>ctx_thread_count := thread_count (hardware_concurrency io),
                         ctx_channels := int_of_unsigned (fmt_nb_channels fmt),
                         ctx_sample_rate := int_of_unsigned (fmt_sample_rate fmt)\<rparr>;
                d4 = d3\<lparr>decoderCtx := Some ctx\<rparr>;
                d5 = (if emulateRate d4 then d4\<lparr>startTime := gettime io\<rparr> else d4)
            in if open2_ret io \<noteq> 0 then Inr (- 1, d5, ev) else Inr (0, d5, ev))"

definition setupFromVideoData ::
  "libav \<Rightarrow> MediaDecoder \<Rightarrow> setup_io \<Rightarrow> fault + (int \<times> MediaDecoder \<times> event list)" where
  "setupFromVideoData K d0 io =
     (let ev = (if decoderCtx d0 \<noteq> None then [CodecClose] else []);
          d1 = d0\<lparr>max_analyze_duration := 30 * AV_TIME_BASE K\<rparr>
      in if find_stream_info_ret io < 0 then Inr (- 1, d1, ev)
      else
        let d2 = d1\<lparr>streamIndex := scan_streams AVMEDIA_TYPE_VIDEO (codec_type io)
                                       (unat (nb_streams io)) 0 (streamIndex d1)\<rparr>
        in if streamIndex d2 = - 1 then Inr (- 1, d2, ev)
        else if streamIndex d2 < 0 \<or> int (unat (nb_streams io)) \<le> streamIndex d2
        then Inl OutOfRange
        else
          let d3 = d2\<lparr>avStream := Some (nat (streamIndex d2)),
                      inputDecoder := find_decoder io\<rparr>
          in if inputDecoder d3 = None then Inr (- 1, d3, ev)
          else
            let ctx = (alloc_context io)
                        \<lparr>ctx_thread_count := thread_count (hardware_concurrency io)\<rparr>;
                d4 = d3\<lparr>decoderCtx := Some ctx\<rparr>;
                d5 = (if enableAccel d4
                      then d4\<lparr>accel := makeHardwareAccel io,
                              decoderCtx := Some (ctx\<lparr>ctx_opaque := makeHardwareAccel io\<rparr>)\<rparr>
                      else d4);
                d6 = (if emulateRate d5 then d5\<lparr>startTime := gettime io\<rparr> else d5)
            in if open2_ret io \<noteq> 0 then Inr (- 1, d6, ev) else Inr (0, d6, ev))"

subsection \<open>decode and flush\<close>

text \<open>The three places where \<open>decode\<close> asks the accelerator whether it has failed.\<close>

datatype site = AtSubmission | AtRetrieval | AfterRetrieval

text \<open>
  What the collaborators answer during one call of \<open>decode\<close> or \<open>flush\<close>: the result of
  \<^verbatim>\<open>av_read_frame\<close> and the stream index of the packet read; the result of
  \<^verbatim>\<open>avcodec_send_packet\<close>; the result of \<^verbatim>\<open>avcodec_receive_frame\<close> and the caller's frame
  as that call leaves it; what \<^verbatim>\<open>accel_->hasFailed()\<close> answers at each place; what
  \<^verbatim>\<open>accel_->extractData\<close> makes of the frame; and, for rate emulation, the value of
  \<^verbatim>\<open>static_cast<std::int64_t>(frame_time.real() * 1e6)\<close> (a floating-point computation
  over the stream's time base, outside the model) and \<^verbatim>\<open>av_gettime()\<close>.
\<close>

record decode_io =
  read_ret :: int
  pkt_stream_index :: int
  send_ret :: int
  receive_ret :: int
  received :: AVFrame
  hasFailed :: "site \<Rightarrow> bool"
  extractData :: "AVFrame \<Rightarrow> AVFrame"
  frame_time_us :: int
  now :: int

text \<open>What a call returns, what it leaves in the caller's frame, and what it asked for.\<close>

record outcome =
  status :: Status
  frame_out :: AVFrame
  events :: "event list"

text \<open>
  The block \<^verbatim>\<open>if (emulateRate_ and frame->pts != AV_NOPTS_VALUE) { ... sleep_for ... }\<close>,
  which both variants of \<open>decode\<close> contain.
\<close>

definition rate_emulation :: "libav \<Rightarrow> MediaDecoder \<Rightarrow> AVFrame \<Rightarrow> decode_io \<Rightarrow> event list" where
  "rate_emulation K d frame io =
     (if emulateRate d \<and> frame_pts frame \<noteq> AV_NOPTS_VALUE K
      then (let target = startTime d + frame_time_us io
            in if target > now io then [Sleep (target - now io)] else [])
      else [])"

text \<open>\<^verbatim>\<open>MediaDecoder::decode(VideoFrame& result)\<close>.\<close>

definition decode_video :: "libav \<Rightarrow> MediaDecoder \<Rightarrow> AVFrame \<Rightarrow> decode_io \<Rightarrow> outcome" where
  "decode_video K d result io =
     (if read_ret io = AVERROR_EAGAIN K
      then \<lparr>status = Success, frame_out = result, events = []\<rparr>
      else if read_ret io = AVERROR_EOF K
      then \<lparr>status = EOFError, frame_out = result, events = []\<rparr>
      else if read_ret io < 0
      then \<lparr>status = ReadError, frame_out = result, events = []\<rparr>
      else if pkt_stream_index io \<noteq> streamIndex d
      then \<lparr>status = Success, frame_out = result, events = [PacketUnref]\<rparr>
      else if send_ret io < 0
      then (if accel d \<noteq> None \<and> hasFailed io AtSubmission
            then \<lparr>status = RestartRequired, frame_out = result, events = []\<rparr>
            else \<lparr>status = (if send_ret io = AVERROR_EOF K then Success else DecodeError),
                  frame_out = result, events = []\<rparr>)
      else if receive_ret io < 0 \<and> receive_ret io \<noteq> AVERROR_EAGAIN K
              \<and> receive_ret io \<noteq> AVERROR_EOF K
      then (if accel d \<noteq> None \<and> hasFailed io AtRetrieval
            then \<lparr>status = RestartRequired, frame_out = received io, events = []\<rparr>
            else \<lparr>status = DecodeError, frame_out = received io, events = []\<rparr>)
      else if receive_ret io \<ge> 0
      then (let frame = (received io)
                          \<lparr>frame_format := correctPixFmt K (frame_format (received io))\<rparr>
            in if accel d \<noteq> None \<and> hasFailed io AfterRetrieval
               then \<lparr>status = RestartRequired, frame_out = frame, events = [PacketUnref]\<rparr>
               else if accel d \<noteq> None
               then \<lparr>status = FrameFinished, frame_out = extractData io frame,
                     events = PacketUnref # ExtractData
                                # rate_emulation K d (extractData io frame) io\<rparr>
               else \<lparr>status = FrameFinished, frame_out = frame,
                     events = PacketUnref # rate_emulation K d frame io\<rparr>)
      else \<lparr>status = Success, frame_out = received io, events = [PacketUnref]\<rparr>)"

text \<open>\<^verbatim>\<open>MediaDecoder::decode(const AudioFrame& decodedFrame)\<close>.\<close>

definition decode_audio :: "libav \<Rightarrow> MediaDecoder \<Rightarrow> AVFrame \<Rightarrow> decode_io \<Rightarrow> outcome" where
  "decode_audio K d decodedFrame io =
     (if read_ret io = AVERROR_EAGAIN K
      then \<lparr>status = Success, frame_out = decodedFrame, events = []\<rparr>
      else if read_ret io = AVERROR_EOF K
      then \<lparr>status = EOFError, frame_out = decodedFrame, events = []\<rparr>
      else if read_ret io < 0
      then \<lparr>status = ReadError, frame_out = decodedFrame, events = []\<rparr>
      else if pkt_stream_index io \<noteq> streamIndex d
      then \<lparr>status = Success, frame_out = decodedFrame, events = [PacketUnref]\<rparr>
      else if send_ret io < 0
      then \<lparr>status = (if send_ret io = AVERROR_EOF K then Success else DecodeError),
            frame_out = decodedFrame, events = []\<rparr>
      else if receive_ret io < 0 \<and> receive_ret io \<noteq> AVERROR_EAGAIN K
              \<and> receive_ret io \<noteq> AVERROR_EOF K
      then \<lparr>status = DecodeError, frame_out = received io, events = []\<rparr>
      else if receive_ret io \<ge> 0
      then \<lparr>status = FrameFinished, frame_out = received io,
            events = PacketUnref # rate_emulation K d (received io) io\<rparr>
      else \<lparr>status = Success, frame_out = received io, events = []\<rparr>)"

text \<open>
  \<^verbatim>\<open>MediaDecoder::flush(VideoFrame& result)\<close>: no packet is read; an empty packet is
  submitted.
\<close>

definition flush :: "libav \<Rightarrow> MediaDecoder \<Rightarrow> AVFrame \<Rightarrow> decode_io \<Rightarrow> outcome" where
  "flush K d result io =
     (if send_ret io < 0
      then \<lparr>status = (if send_ret io = AVERROR_EOF K then Success else DecodeError),
            frame_out = result, events = []\<rparr>
      else if receive_ret io < 0 \<and> receive_ret io \<noteq> AVERROR_EAGAIN K
              \<and> receive_ret io \<noteq> AVERROR_EOF K
      then \<lparr>status = DecodeError, frame_out = received io, events = []\<rparr>
      else if receive_ret io \<ge> 0
      then (if accel d \<noteq> None \<and> \<not> hasFailed io AfterRetrieval
            then \<lparr>status = FrameFinished, frame_out = extractData io (received io),
                  events = [PacketUnref, ExtractData]\<rparr>
            else \<lparr>status = FrameFinished, frame_out = received io, events = [PacketUnref]\<rparr>)
      else \<lparr>status = Success, frame_out = received io, events = []\<rparr>)"

subsection \<open>writeToRingBuffer\<close>

text \<open>
  The collaborators of the audio path, which are not among the sources: the two
  conversion routines of \<^verbatim>\<open>AudioBuffer\<close> (given the frame's data, the number of samples
  and of channels, and the buffer they fill) and \<^verbatim>\<open>Resampler::resample\<close> (given the
  resampler, the input buffer and the output buffer, it yields the output buffer).
\<close>

record audio_collab =
  convertFloatPlanarToSigned16 :: "nat \<Rightarrow> int \<Rightarrow> int \<Rightarrow> AudioBuffer \<Rightarrow> AudioBuffer"
  deinterleave :: "nat \<Rightarrow> int \<Rightarrow> int \<Rightarrow> AudioBuffer \<Rightarrow> AudioBuffer"
  resample :: "Resampler \<Rightarrow> AudioBuffer \<Rightarrow> AudioBuffer \<Rightarrow> AudioBuffer"

text \<open>
  \<^verbatim>\<open>MediaDecoder::writeToRingBuffer\<close>. The ring buffer is the caller's; what is put into
  it is an event. The function reads \<^verbatim>\<open>decoderCtx_->channels\<close> without a null check.
\<close>

definition writeToRingBuffer ::
  "libav \<Rightarrow> audio_collab \<Rightarrow> MediaDecoder \<Rightarrow> AVFrame \<Rightarrow> AudioFormat \<Rightarrow> fault + (MediaDecoder \<times> event list)" where
  "writeToRingBuffer K L d libav_frame outFormat =
     (case decoderCtx d of
        None \<Rightarrow> Inl NullDereference
      | Some ctx \<Rightarrow>
          let b1 = resize
                     (setFormat (decBuff d)
                        \<lparr>fmt_sample_rate = unsigned_of_int (frame_sample_rate libav_frame),
                         fmt_nb_channels = unsigned_of_int (ctx_channels ctx)\<rparr>)
                     (size_t_of_int (frame_nb_samples libav_frame));
              b2 = (if ctx_sample_fmt ctx = AV_SAMPLE_FMT_FLTP K
                    then convertFloatPlanarToSigned16 L (frame_data libav_frame)
                           (frame_nb_samples libav_frame) (ctx_channels ctx) b1
                    else if ctx_sample_fmt ctx = AV_SAMPLE_FMT_S16 K
                    then deinterleave L (frame_data libav_frame)
                           (frame_nb_samples libav_frame) (ctx_channels ctx) b1
                    else b1);
              d1 = d\<lparr>decBuff := b2\<rparr>
          in if unsigned_of_int (frame_sample_rate libav_frame) \<noteq> fmt_sample_rate outFormat
             then
               let ev = (if resampler d1 = None then [NewResampler outFormat] else []);
                   r = (case resampler d1 of None \<Rightarrow> Resampler outFormat | Some r0 \<Rightarrow> r0);
                   d2 = d1\<lparr>resampler := Some r\<rparr>;
                   rb1 = resize
                           (setFormat (resamplingBuff d2)
                              \<lparr>fmt_sample_rate = fmt_sample_rate outFormat,
                               fmt_nb_channels = unsigned_of_int (ctx_channels ctx)\<rparr>)
                           (size_t_of_int (frame_nb_samples libav_frame));
                   rb2 = resample L r (decBuff d2) rb1;
                   d3 = d2\<lparr>resamplingBuff := rb2\<rparr>
               in Inr (d3, ev @ [RingBufferPut (resamplingBuff d3)])
             else Inr (d1, [RingBufferPut (decBuff d1)]))"

subsection \<open>The life of a decoder\<close>

text \<open>A call of a member function, with what the collaborators answer during it.\<close>

datatype call =
    OpenInput DeviceParams open_io
  | SetInterruptCallback
  | SetIOContext
  | EmulateRate
  | EnableAccel bool
  | SetupFromAudioData AudioFormat setup_io
  | SetupFromVideoData setup_io
  | DecodeVideo AVFrame decode_io
  | DecodeAudio AVFrame decode_io
  | Flush AVFrame decode_io
  | WriteToRingBuffer AVFrame AudioFormat

text \<open>
  The decoder after a call, and what the call asked of the collaborators. \<open>decode\<close> and
  \<open>flush\<close> assign no member.
\<close>

definition step ::
  "libav \<Rightarrow> audio_collab \<Rightarrow> MediaDecoder \<Rightarrow> call \<Rightarrow> fault + (MediaDecoder \<times> event list)" where
  "step K L d c =
     (case c of
        OpenInput params io \<Rightarrow> Inr (snd (openInput d params io), [])
      | SetInterruptCallback \<Rightarrow> Inr (setInterruptCallback d, [])
      | SetIOContext \<Rightarrow> Inr (setIOContext d, [])
      | EmulateRate \<Rightarrow> Inr (emulateRate_on d, [])
      | EnableAccel enable \<Rightarrow> Inr (enableAccel_set d enable, [])
      | SetupFromAudioData fmt io \<Rightarrow>
          (case setupFromAudioData K d fmt io of
             Inl f \<Rightarrow> Inl f
           | Inr (ret, d1, ev) \<Rightarrow> Inr (d1, ev))
      | SetupFromVideoData io \<Rightarrow>
          (case setupFromVideoData K d io of
             Inl f \<Rightarrow> Inl f
           | Inr (ret, d1, ev) \<Rightarrow> Inr (d1, ev))
      | DecodeVideo frame io \<Rightarrow> Inr (d, events (decode_video K d frame io))
      | DecodeAudio frame io \<Rightarrow> Inr (d, events (decode_audio K d frame io))
      | Flush frame io \<Rightarrow> Inr (d, events (flush K d frame io))
      | WriteToRingBuffer frame outFormat \<Rightarrow> writeToRingBuffer K L d frame outFormat)"

fun run ::
  "libav \<Rightarrow> audio_collab \<Rightarrow> MediaDecoder \<Rightarrow> call list \<Rightarrow> fault + (MediaDecoder \<times> event list)" where
  "run K L d [] = Inr (d, [])"
| "run K L d (c # cs) =
     (case step K L d c of
        Inl f \<Rightarrow> Inl f
      | Inr (d1, ev) \<Rightarrow>
          (case run K L d1 cs of
             Inl f \<Rightarrow> Inl f
           | Inr (d2, ev2) \<Rightarrow> Inr (d2, ev @ ev2)))"

text \<open>Calls and events the properties below single out.\<close>

fun is_setup :: "call \<Rightarrow> bool" where
  "is_setup (SetupFromAudioData fmt io) = True"
| "is_setup (SetupFromVideoData io) = True"
| "is_setup c = False"

text \<open>
  A call of \<open>writeToRingBuffer\<close> whose frame has another sample rate than the output
  format: the test \<^verbatim>\<open>(unsigned)libav_frame->sample_rate != outFormat.sample_rate\<close>.
\<close>

fun mismatching :: "call \<Rightarrow> bool" where
  "mismatching (WriteToRingBuffer frame outFormat) =
     (unsigned_of_int (frame_sample_rate frame) \<noteq> fmt_sample_rate outFormat)"
| "mismatching c = False"

fun is_NewResampler :: "event \<Rightarrow> bool" where
  "is_NewResampler (NewResampler f) = True"
| "is_NewResampler e = False"

subsection \<open>Concrete inputs\<close>

text \<open>
  Inputs on which the model is run: a frame as the caller supplies it and as the codec
  hands it back, answers of the collaborators in which every call succeeds and the
  accelerator reports that it has failed, a source with a video stream followed by an
  audio stream, and the decoders that a first setup call on that source leaves.
\<close>

definition example_frame :: AVFrame where
  "example_frame = \<lparr>frame_format = 0, frame_pts = 0, frame_sample_rate = 0,
                     frame_nb_samples = 0, frame_data = 0\<rparr>"

definition decoded_frame :: AVFrame where
  "decoded_frame = \<lparr>frame_format = 12, frame_pts = 40, frame_sample_rate = 48000,
                     frame_nb_samples = 960, frame_data = 1\<rparr>"

definition example_io :: decode_io where
  "example_io = \<lparr>read_ret = 0, pkt_stream_index = 0, send_ret = 0, receive_ret = 0,
                  received = decoded_frame, hasFailed = (\<lambda>s. True),
                  extractData = (\<lambda>f. f\<lparr>frame_data := 2\<rparr>), frame_time_us = 0, now = 0\<rparr>"

definition example_ctx :: AVCodecContext where
  "example_ctx = \<lparr>ctx_thread_count = 1, ctx_channels = 2, ctx_sample_rate = 44100,
                   ctx_sample_fmt = 1, ctx_opaque = None\<rparr>"

definition example_setup_io :: setup_io where
  "example_setup_io =
     \<lparr>find_stream_info_ret = 0, nb_streams = 2,
      codec_type = (\<lambda>i. if i = 0 then AVMEDIA_TYPE_VIDEO else AVMEDIA_TYPE_AUDIO),
      find_decoder = Some 1, alloc_context = example_ctx, hardware_concurrency = 4,
      makeHardwareAccel = Some (HardwareAccel ''vaapi''), gettime = 100, open2_ret = 0\<rparr>"

definition video_decoder :: MediaDecoder where
  "video_decoder =
     (MediaDecoder_new ffmpeg_linux)
       \<lparr>max_analyze_duration := 30000000, inputDecoder := Some 1,
        decoderCtx := Some (example_ctx\<lparr>ctx_thread_count := 2,
                                        ctx_opaque := Some (HardwareAccel ''vaapi'')\<rparr>),
        avStream := Some 0, streamIndex := 0, accel := Some (HardwareAccel ''vaapi'')\<rparr>"

definition audio_decoder :: MediaDecoder where
  "audio_decoder =
     (MediaDecoder_new ffmpeg_linux)
       \<lparr>max_analyze_duration := 30000000, inputDecoder := Some 1,
        decoderCtx := Some (example_ctx\<lparr>ctx_thread_count := 2, ctx_channels := 1,
                                        ctx_sample_rate := 16000\<rparr>),
        avStream := Some 1, streamIndex := 1\<rparr>"

definition example_params :: DeviceParams where
  "example_params =
     \<lparr>input = ''/dev/video0'', format = ''video4linux2'', width = 640, height = 480,
      framerate_nonzero = True, framerate_text = ''30.000000'', pixel_format = ''yuyv422'',
      channel = 0, loop = ''1'', sdp_flags = ''custom_io'', offset_x = 0, offset_y = 0\<rparr>"

definition example_open_io :: open_io where
  "example_open_io =
     \<lparr>getDecodingAccelerated = True, open_input_ret = 0,
      open_input_left = (\<lambda>m. filter (\<lambda>e. fst e = ''loop'') m)\<rparr>"


text \<open>
  Collaborators of the audio path: converters that fill the buffer with one sample per
  channel, and a resampler that leaves the format of its output buffer alone.
\<close>

definition example_collab :: audio_collab where
  "example_collab =
     \<lparr>convertFloatPlanarToSigned16 = (\<lambda>h n c b. b\<lparr>buf_samples := [[1]]\<rparr>),
      deinterleave = (\<lambda>h n c b. b\<lparr>buf_samples := [[2]]\<rparr>),
      resample = (\<lambda>r a b. b\<lparr>buf_samples := buf_samples a\<rparr>)\<rparr>"

definition fmt16k :: AudioFormat where
  "fmt16k = \<lparr>fmt_sample_rate = 16000, fmt_nb_channels = 1\<rparr>"

definition fmt8k :: AudioFormat where
  "fmt8k = \<lparr>fmt_sample_rate = 8000, fmt_nb_channels = 1\<rparr>"

definition fmt48k :: AudioFormat where
  "fmt48k = \<lparr>fmt_sample_rate = 48000, fmt_nb_channels = 1\<rparr>"



text \<open>The audio decoder with rate emulation enabled before setup, at clock value 100.\<close>

definition paced_decoder :: MediaDecoder where
  "paced_decoder = audio_decoder\<lparr>emulateRate := True, startTime := 100\<rparr>"

text \<open>
  The audio decoder after a 48 kHz frame was written for a 16 kHz consumer, which built
  the resampler.
\<close>

definition resampling_decoder :: MediaDecoder where
  "resampling_decoder =
     audio_decoder
       \<lparr>decBuff := \<lparr>buf_format = \<lparr>fmt_sample_rate = 48000, fmt_nb_channels = 1\<rparr>,
                     buf_frames = 960, buf_samples = [[2]]\<rparr>,
        resamplingBuff := \<lparr>buf_format = \<lparr>fmt_sample_rate = 16000, fmt_nb_channels = 1\<rparr>,
                            buf_frames = 960, buf_samples = [[2]]\<rparr>,
        resampler := Some (Resampler fmt16k)\<rparr>"

section \<open>Properties\<close>

lemma ffmpeg_linux_sel [simp]:
  "AVERROR_EAGAIN ffmpeg_linux = - 11"
  "AVERROR_EOF ffmpeg_linux = - 541478725"
  "AV_NOPTS_VALUE ffmpeg_linux = - 9223372036854775808"
  "AV_TIME_BASE ffmpeg_linux = 1000000"
  "AV_PIX_FMT_YUV420P ffmpeg_linux = 0"
  "AV_PIX_FMT_YUV422P ffmpeg_linux = 4"
  "AV_PIX_FMT_YUV444P ffmpeg_linux = 5"
  "AV_PIX_FMT_YUV440P ffmpeg_linux = 33"
  "AV_PIX_FMT_YUVJ420P ffmpeg_linux = 12"
  "AV_PIX_FMT_YUVJ422P ffmpeg_linux = 13"
  "AV_PIX_FMT_YUVJ444P ffmpeg_linux = 14"
  "AV_PIX_FMT_YUVJ440P ffmpeg_linux = 34"
  "AV_SAMPLE_FMT_S16 ffmpeg_linux = 1"
  "AV_SAMPLE_FMT_FLTP ffmpeg_linux = 8"
  by (simp_all add: ffmpeg_linux_def)


subsection \<open>Integer conversions\<close>


lemma int_of_unsigned_not_sentinel:
  assumes "k < unat (w :: 32 word)"
  shows "int_of_unsigned k \<noteq> - 1"
proof
  assume eq: "int_of_unsigned k = - 1"
  have "unat w < 4294967296" using unsigned_less [of w] by simp
  with assms have k: "int k < 4294967295" by linarith
  show False
  proof (cases "int k < 2147483648")
    case True
    then have "(int k + 2147483648) mod 4294967296 = int k + 2147483648"
      by (intro mod_pos_pos_trivial) linarith+
    with eq show False by (simp add: int_of_unsigned_def)
  next
    case False
    with k have "(int k + 2147483648 - 4294967296) mod 4294967296
                   = int k + 2147483648 - 4294967296"
      by (intro mod_pos_pos_trivial) linarith+
    then have "(int k + 2147483648) mod 4294967296 = int k + 2147483648 - 4294967296"
      by (simp only: minus_mod_self2)
    with eq k show False by (simp add: int_of_unsigned_def)
  qed
qed


subsection \<open>The concrete inputs\<close>

lemma int_of_unsigned_small [simp]: "int_of_unsigned 0 = 0" "int_of_unsigned 1 = 1"
  "int_of_unsigned (Suc 0) = 1"
  "int_of_unsigned 16000 = 16000"
  by (simp_all add: int_of_unsigned_def)

lemma errors_negative_ffmpeg_linux: "errors_negative ffmpeg_linux"
  by (simp add: errors_negative_def)

lemma video_decoder_sel [simp]:
  "streamIndex video_decoder = 0" "accel video_decoder = Some (HardwareAccel ''vaapi'')"
  "emulateRate video_decoder = False"
  by (simp_all add: video_decoder_def MediaDecoder_new_def)

lemma audio_decoder_sel [simp]:
  "streamIndex audio_decoder = 1" "accel audio_decoder = None"
  "emulateRate audio_decoder = False"
  by (simp_all add: audio_decoder_def MediaDecoder_new_def)

lemma example_io_sel [simp]:
  "read_ret example_io = 0" "pkt_stream_index example_io = 0" "send_ret example_io = 0"
  "receive_ret example_io = 0" "received example_io = decoded_frame"
  "hasFailed example_io s = True" "extractData example_io f = f\<lparr>frame_data := 2\<rparr>"
  "frame_time_us example_io = 0" "now example_io = 0"
  by (simp_all add: example_io_def)

lemma example_setup_io_sel [simp]:
  "find_stream_info_ret example_setup_io = 0" "nb_streams example_setup_io = 2"
  "codec_type example_setup_io i = (if i = 0 then AVMEDIA_TYPE_VIDEO else AVMEDIA_TYPE_AUDIO)"
  "find_decoder example_setup_io = Some 1" "alloc_context example_setup_io = example_ctx"
  "hardware_concurrency example_setup_io = 4"
  "makeHardwareAccel example_setup_io = Some (HardwareAccel ''vaapi'')"
  "gettime example_setup_io = 100" "open2_ret example_setup_io = 0"
  by (simp_all add: example_setup_io_def)

lemma example_params_sel [simp]:
  "width example_params = 640" "height example_params = 480"
  "pixel_format example_params = ''yuyv422''" "channel example_params = 0"
  "loop example_params = ''1''" "sdp_flags example_params = ''custom_io''"
  "offset_x example_params = 0" "offset_y example_params = 0"
  by (simp_all add: example_params_def)

lemma thread_count_4 [simp]: "thread_count 4 = 2"
  by (simp add: thread_count_def)

lemma video_decoder_reached:
  "setupFromVideoData ffmpeg_linux (MediaDecoder_new ffmpeg_linux) example_setup_io
     = Inr (0, video_decoder, [])"
  by (simp add: setupFromVideoData_def MediaDecoder_new_def example_setup_io_def
      video_decoder_def scan_streams.simps Let_def)

lemma audio_decoder_reached:
  "setupFromAudioData ffmpeg_linux (MediaDecoder_new ffmpeg_linux)
       \<lparr>fmt_sample_rate = 16000, fmt_nb_channels = 1\<rparr> example_setup_io
     = Inr (0, audio_decoder, [])"
  by (simp add: setupFromAudioData_def MediaDecoder_new_def example_setup_io_def
      audio_decoder_def scan_streams.simps Let_def)


subsection \<open>Pixel formats\<close>

lemma correctPixFmt_other:
  "f \<noteq> AV_PIX_FMT_YUVJ420P K \<Longrightarrow> f \<noteq> AV_PIX_FMT_YUVJ422P K \<Longrightarrow>
   f \<noteq> AV_PIX_FMT_YUVJ444P K \<Longrightarrow> f \<noteq> AV_PIX_FMT_YUVJ440P K \<Longrightarrow> correctPixFmt K f = f"
  by (simp add: correctPixFmt_def)

lemma correctPixFmt_cases:
  "correctPixFmt K f = AV_PIX_FMT_YUV420P K \<or> correctPixFmt K f = AV_PIX_FMT_YUV422P K
   \<or> correctPixFmt K f = AV_PIX_FMT_YUV444P K \<or> correctPixFmt K f = AV_PIX_FMT_YUV440P K
   \<or> (correctPixFmt K f = f \<and> f \<noteq> AV_PIX_FMT_YUVJ420P K \<and> f \<noteq> AV_PIX_FMT_YUVJ422P K
        \<and> f \<noteq> AV_PIX_FMT_YUVJ444P K \<and> f \<noteq> AV_PIX_FMT_YUVJ440P K)"
  by (simp add: correctPixFmt_def)

lemma pix_fmts_distinctD:
  assumes "pix_fmts_distinct K"
  shows "AV_PIX_FMT_YUVJ422P K \<noteq> AV_PIX_FMT_YUVJ420P K"
    and "AV_PIX_FMT_YUVJ444P K \<noteq> AV_PIX_FMT_YUVJ420P K"
    and "AV_PIX_FMT_YUVJ444P K \<noteq> AV_PIX_FMT_YUVJ422P K"
    and "AV_PIX_FMT_YUVJ440P K \<noteq> AV_PIX_FMT_YUVJ420P K"
    and "AV_PIX_FMT_YUVJ440P K \<noteq> AV_PIX_FMT_YUVJ422P K"
    and "AV_PIX_FMT_YUVJ440P K \<noteq> AV_PIX_FMT_YUVJ444P K"
    and "\<And>t. t \<in> {AV_PIX_FMT_YUV420P K, AV_PIX_FMT_YUV422P K, AV_PIX_FMT_YUV444P K,
               AV_PIX_FMT_YUV440P K} \<Longrightarrow>
         t \<noteq> AV_PIX_FMT_YUVJ420P K \<and> t \<noteq> AV_PIX_FMT_YUVJ422P K
         \<and> t \<noteq> AV_PIX_FMT_YUVJ444P K \<and> t \<noteq> AV_PIX_FMT_YUVJ440P K"
  using assms unfolding pix_fmts_distinct_def by auto

lemma correctPixFmt_targets:
  assumes "pix_fmts_distinct K"
    and "t \<in> {AV_PIX_FMT_YUV420P K, AV_PIX_FMT_YUV422P K, AV_PIX_FMT_YUV444P K,
               AV_PIX_FMT_YUV440P K}"
  shows "correctPixFmt K t = t"
  using pix_fmts_distinctD(7) [OF assms] by (simp add: correctPixFmt_other)

lemma correctPixFmt_idem:
  assumes "pix_fmts_distinct K"
  shows "correctPixFmt K (correctPixFmt K f) = correctPixFmt K f"
  using correctPixFmt_cases [of K f] correctPixFmt_targets [OF assms]
  by (elim disjE) (simp_all add: correctPixFmt_other)

lemma correctPixFmt_J:
  assumes "pix_fmts_distinct K"
  shows "correctPixFmt K (AV_PIX_FMT_YUVJ420P K) = AV_PIX_FMT_YUV420P K"
    and "correctPixFmt K (AV_PIX_FMT_YUVJ422P K) = AV_PIX_FMT_YUV422P K"
    and "correctPixFmt K (AV_PIX_FMT_YUVJ444P K) = AV_PIX_FMT_YUV444P K"
    and "correctPixFmt K (AV_PIX_FMT_YUVJ440P K) = AV_PIX_FMT_YUV440P K"
  using pix_fmts_distinctD(1-6) [OF assms] by (simp_all add: correctPixFmt_def)

text \<open>
  C4. \<open>correctPixFmt\<close> is defined on every pixel-format code. It maps YUVJ420P to
  YUV420P, YUVJ422P to YUV422P, YUVJ444P to YUV444P and YUVJ440P to YUV440P, returns
  every other code unchanged, and applying it twice is the same as applying it once.
\<close>

theorem correctPixFmt_total_idempotent:
  assumes "pix_fmts_distinct K"
  shows "correctPixFmt K (AV_PIX_FMT_YUVJ420P K) = AV_PIX_FMT_YUV420P K
       \<and> correctPixFmt K (AV_PIX_FMT_YUVJ422P K) = AV_PIX_FMT_YUV422P K
       \<and> correctPixFmt K (AV_PIX_FMT_YUVJ444P K) = AV_PIX_FMT_YUV444P K
       \<and> correctPixFmt K (AV_PIX_FMT_YUVJ440P K) = AV_PIX_FMT_YUV440P K
       \<and> (f \<notin> {AV_PIX_FMT_YUVJ420P K, AV_PIX_FMT_YUVJ422P K,
                AV_PIX_FMT_YUVJ444P K, AV_PIX_FMT_YUVJ440P K}
            \<longrightarrow> correctPixFmt K f = f)
       \<and> correctPixFmt K (correctPixFmt K f) = correctPixFmt K f"
proof (intro conjI impI)
  show "correctPixFmt K (correctPixFmt K f) = correctPixFmt K f"
    by (rule correctPixFmt_idem [OF assms])
next
  assume "f \<notin> {AV_PIX_FMT_YUVJ420P K, AV_PIX_FMT_YUVJ422P K,
                AV_PIX_FMT_YUVJ444P K, AV_PIX_FMT_YUVJ440P K}"
  then show "correctPixFmt K f = f" by (simp add: correctPixFmt_other)
qed (rule correctPixFmt_J [OF assms])+

theorem correctPixFmt_total_idempotent_witness:
  "pix_fmts_distinct ffmpeg_linux
   \<and> correctPixFmt ffmpeg_linux 12 = 0
   \<and> correctPixFmt ffmpeg_linux 13 = 4
   \<and> correctPixFmt ffmpeg_linux 14 = 5
   \<and> correctPixFmt ffmpeg_linux 34 = 33
   \<and> correctPixFmt ffmpeg_linux 2 = 2
   \<and> correctPixFmt ffmpeg_linux (correctPixFmt ffmpeg_linux 2) = correctPixFmt ffmpeg_linux 2"
proof -
  have d: "pix_fmts_distinct ffmpeg_linux"
    by (simp add: pix_fmts_distinct_def)
  have n: "(2::int) \<notin> {AV_PIX_FMT_YUVJ420P ffmpeg_linux, AV_PIX_FMT_YUVJ422P ffmpeg_linux,
             AV_PIX_FMT_YUVJ444P ffmpeg_linux, AV_PIX_FMT_YUVJ440P ffmpeg_linux}"
    by simp
  from correctPixFmt_total_idempotent [OF d, of 2] n d show ?thesis
    by simp
qed

subsection \<open>openInput\<close>

lemma map_of_filter_other:
  "k' \<noteq> k \<Longrightarrow> map_of (filter (\<lambda>e. fst e \<noteq> k) m) k' = map_of m k'"
  by (induction m) auto

lemma map_of_filter_same: "map_of (filter (\<lambda>e. fst e \<noteq> k) m) k = None"
  by (induction m) auto

lemma av_dict_get_set:
  "av_dict_get (av_dict_set m k v) k' = (if k' = k then Some v else av_dict_get m k')"
  by (auto simp: av_dict_get_def av_dict_set_def map_add_def map_of_filter_other
      map_of_filter_same split: option.splits)

lemma av_dict_get_if:
  "av_dict_get (if c then a else b) k = (if c then av_dict_get a k else av_dict_get b k)"
  by simp

lemma to_string_jitter:
  "to_string jitterBufferMaxSize = ''1500''"
  "to_string (jitterBufferMaxDelay_ms * 1000) = ''50000''"
  by (simp_all add: jitterBufferMaxSize_def jitterBufferMaxDelay_ms_def to_string.simps)

lemma openInput_video_size:
  "av_dict_get (openInput_options m p) ''video_size''
     = (if width p \<noteq> 0 \<and> height p \<noteq> 0
        then Some (to_string (width p) @ ''x'' @ to_string (height p))
        else av_dict_get m ''video_size'')"
  by (simp add: openInput_options_def Let_def av_dict_get_set av_dict_get_if)

lemma openInput_channel:
  "av_dict_get (openInput_options m p) ''channel''
     = (if channel p \<noteq> 0 then Some (to_string (channel p)) else av_dict_get m ''channel'')"
  by (simp add: openInput_options_def Let_def av_dict_get_set av_dict_get_if)

lemma openInput_pixel_format:
  "av_dict_get (openInput_options m p) ''pixel_format''
     = (if pixel_format p \<noteq> [] then Some (pixel_format p)
        else av_dict_get m ''pixel_format'')"
  by (simp add: openInput_options_def Let_def av_dict_get_set av_dict_get_if)

lemma openInput_loop_sdp:
  "av_dict_get (openInput_options m p) ''loop'' = Some (loop p)"
  "av_dict_get (openInput_options m p) ''sdp_flags'' = Some (sdp_flags p)"
  by (simp_all add: openInput_options_def Let_def av_dict_get_set av_dict_get_if)

lemma openInput_offsets:
  "av_dict_get (openInput_options m p) ''offset_x''
     = (if offset_x p \<noteq> 0 \<or> offset_y p \<noteq> 0 then Some (to_string (offset_x p))
        else av_dict_get m ''offset_x'')"
  "av_dict_get (openInput_options m p) ''offset_y''
     = (if offset_x p \<noteq> 0 \<or> offset_y p \<noteq> 0 then Some (to_string (offset_y p))
        else av_dict_get m ''offset_y'')"
  by (simp_all add: openInput_options_def Let_def av_dict_get_set av_dict_get_if)

lemma openInput_jitter:
  "av_dict_get (openInput_options m p) ''reorder_queue_size'' = Some ''1500''"
  "av_dict_get (openInput_options m p) ''max_delay'' = Some ''50000''"
  by (simp_all add: openInput_options_def Let_def av_dict_get_set av_dict_get_if
      to_string_jitter)

lemma openInput_framerate:
  "av_dict_get (openInput_options m p) ''framerate''
     = (if framerate_nonzero p then Some (framerate_text p) else av_dict_get m ''framerate'')"
  by (simp add: openInput_options_def Let_def av_dict_get_set av_dict_get_if)

lemma av_dict_set_not_Nil: "av_dict_set m k v \<noteq> []"
  by (simp add: av_dict_set_def)

lemma openInput_options_not_Nil: "openInput_options m p \<noteq> []"
  by (simp add: openInput_options_def Let_def av_dict_set_not_Nil)

lemma openInput_passes_options:
  "options (snd (openInput d p io)) = open_input_left io (openInput_options (options d) p)"
  "fst (openInput d p io) = open_input_ret io"
  by (simp_all add: openInput_def Let_def openInput_options_not_Nil)

lemma av_dict_get_Nil: "av_dict_get [] k = None"
  by (simp add: av_dict_get_def)

text \<open>
  C7. The dictionary \<open>openInput\<close> hands to the demuxer holds "video_size" as "WxH"
  exactly when width and height are both non-zero, "channel" exactly when the channel is
  non-zero, "pixel_format" exactly when the pixel-format string is not empty, "loop" and
  "sdp_flags" always and verbatim, the two offsets when one of them is non-zero, and
  always "reorder_queue_size" = 1500 and "max_delay" = 50000. A key the call does not
  set keeps what the decoder's dictionary held before; a new decoder's dictionary is empty.
\<close>

theorem openInput_builds_options:
  assumes "opts = openInput_options (options d) p"
  shows "options (snd (openInput d p io)) = open_input_left io opts
    \<and> av_dict_get opts ''video_size''
        = (if width p \<noteq> 0 \<and> height p \<noteq> 0
           then Some (to_string (width p) @ ''x'' @ to_string (height p))
           else av_dict_get (options d) ''video_size'')
    \<and> av_dict_get opts ''channel''
        = (if channel p \<noteq> 0 then Some (to_string (channel p))
           else av_dict_get (options d) ''channel'')
    \<and> av_dict_get opts ''pixel_format''
        = (if pixel_format p \<noteq> [] then Some (pixel_format p)
           else av_dict_get (options d) ''pixel_format'')
    \<and> av_dict_get opts ''loop'' = Some (loop p)
    \<and> av_dict_get opts ''sdp_flags'' = Some (sdp_flags p)
    \<and> av_dict_get opts ''offset_x''
        = (if offset_x p \<noteq> 0 \<or> offset_y p \<noteq> 0 then Some (to_string (offset_x p))
           else av_dict_get (options d) ''offset_x'')
    \<and> av_dict_get opts ''offset_y''
        = (if offset_x p \<noteq> 0 \<or> offset_y p \<noteq> 0 then Some (to_string (offset_y p))
           else av_dict_get (options d) ''offset_y'')
    \<and> av_dict_get opts ''reorder_queue_size'' = Some ''1500''
    \<and> av_dict_get opts ''max_delay'' = Some ''50000''
    \<and> (options d = [] \<longrightarrow>
          (av_dict_get opts ''video_size'' \<noteq> None \<longleftrightarrow> width p \<noteq> 0 \<and> height p \<noteq> 0)
        \<and> (av_dict_get opts ''channel'' \<noteq> None \<longleftrightarrow> channel p \<noteq> 0)
        \<and> (av_dict_get opts ''pixel_format'' \<noteq> None \<longleftrightarrow> pixel_format p \<noteq> [])
        \<and> (av_dict_get opts ''offset_x'' \<noteq> None \<longleftrightarrow> offset_x p \<noteq> 0 \<or> offset_y p \<noteq> 0)
        \<and> (av_dict_get opts ''offset_y'' \<noteq> None \<longleftrightarrow> offset_x p \<noteq> 0 \<or> offset_y p \<noteq> 0))"
proof -
  have fresh: "options d = [] \<longrightarrow>
          (av_dict_get opts ''video_size'' \<noteq> None \<longleftrightarrow> width p \<noteq> 0 \<and> height p \<noteq> 0)
        \<and> (av_dict_get opts ''channel'' \<noteq> None \<longleftrightarrow> channel p \<noteq> 0)
        \<and> (av_dict_get opts ''pixel_format'' \<noteq> None \<longleftrightarrow> pixel_format p \<noteq> [])
        \<and> (av_dict_get opts ''offset_x'' \<noteq> None \<longleftrightarrow> offset_x p \<noteq> 0 \<or> offset_y p \<noteq> 0)
        \<and> (av_dict_get opts ''offset_y'' \<noteq> None \<longleftrightarrow> offset_x p \<noteq> 0 \<or> offset_y p \<noteq> 0)"
    unfolding assms
    by (simp add: openInput_video_size openInput_channel openInput_pixel_format
        openInput_offsets av_dict_get_Nil)
  show ?thesis
    unfolding assms
    using fresh [unfolded assms]
    by (simp only: openInput_passes_options openInput_video_size openInput_channel
        openInput_pixel_format openInput_loop_sdp openInput_offsets openInput_jitter
        simp_thms)
qed

lemma to_string_ex: "to_string 640 = ''640''" "to_string 480 = ''480''"
  by (simp_all add: to_string.simps)

theorem openInput_builds_options_witness:
  "av_dict_get (openInput_options [] example_params) ''video_size'' = Some ''640x480''
   \<and> av_dict_get (openInput_options [] example_params) ''channel'' = None
   \<and> av_dict_get (openInput_options [] example_params) ''pixel_format'' = Some ''yuyv422''
   \<and> av_dict_get (openInput_options [] example_params) ''loop'' = Some ''1''
   \<and> av_dict_get (openInput_options [] example_params) ''sdp_flags'' = Some ''custom_io''
   \<and> av_dict_get (openInput_options [] example_params) ''offset_x'' = None
   \<and> av_dict_get (openInput_options [] example_params) ''offset_y'' = None
   \<and> av_dict_get (openInput_options [] example_params) ''reorder_queue_size'' = Some ''1500''
   \<and> av_dict_get (openInput_options [] example_params) ''max_delay'' = Some ''50000''
   \<and> options (snd (openInput (MediaDecoder_new ffmpeg_linux) example_params example_open_io))
       = [(''loop'', ''1'')]"
proof -
  have o: "options (MediaDecoder_new ffmpeg_linux) = []"
    by (simp add: MediaDecoder_new_def)
  have l: "open_input_left example_open_io (openInput_options [] example_params)
             = [(''loop'', ''1'')]"
    by (simp add: example_open_io_def openInput_options_def Let_def av_dict_set_def)
  from openInput_builds_options
         [of "openInput_options [] example_params" "MediaDecoder_new ffmpeg_linux"
             example_params example_open_io]
  show ?thesis
    by (simp add: o l to_string_ex av_dict_get_Nil)
qed


subsection \<open>Stream selection\<close>







lemma writeToRingBuffer_frame:
  assumes "writeToRingBuffer K L d frame out = Inr (d', ev)"
  shows "streamIndex d' = streamIndex d" and "startTime d' = startTime d"
    and "emulateRate d' = emulateRate d"
  using assms
  by (auto simp: writeToRingBuffer_def Let_def split: option.splits if_splits)

lemma openInput_frame:
  "streamIndex (snd (openInput d p io)) = streamIndex d"
  "startTime (snd (openInput d p io)) = startTime d"
  "resampler (snd (openInput d p io)) = resampler d"
  by (simp_all add: openInput_def Let_def)

lemma enableAccel_set_frame:
  "streamIndex (enableAccel_set d b) = streamIndex d"
  "startTime (enableAccel_set d b) = startTime d"
  "resampler (enableAccel_set d b) = resampler d"
  by (simp_all add: enableAccel_set_def Let_def)













subsection \<open>The origin of rate emulation\<close>

lemma setupFromAudioData_startTime:
  assumes "setupFromAudioData K d fmt io = Inr (ret, d', ev)"
  shows "startTime d'
           = (if emulateRate d \<and> 0 \<le> find_stream_info_ret io \<and> streamIndex d' \<noteq> - 1
                 \<and> find_decoder io \<noteq> None
              then gettime io else startTime d)"
  using assms
  by (simp add: setupFromAudioData_def Let_def split: if_splits) auto

lemma setupFromVideoData_startTime:
  assumes "setupFromVideoData K d io = Inr (ret, d', ev)"
  shows "startTime d'
           = (if emulateRate d \<and> 0 \<le> find_stream_info_ret io \<and> streamIndex d' \<noteq> - 1
                 \<and> find_decoder io \<noteq> None
              then gettime io else startTime d)"
  using assms
  by (simp add: setupFromVideoData_def Let_def split: if_splits) auto

lemma step_startTime_kept:
  assumes "\<not> is_setup c" and "step K L d c = Inr (d', ev)"
  shows "startTime d' = startTime d"
proof (cases c)
  case (WriteToRingBuffer frame out)
  with assms(2) have "writeToRingBuffer K L d frame out = Inr (d', ev)"
    by (simp add: step_def)
  then show ?thesis by (rule writeToRingBuffer_frame)
qed (use assms in \<open>auto simp: step_def openInput_frame enableAccel_set_frame
      setInterruptCallback_def setIOContext_def emulateRate_on_def\<close>)

text \<open>
  C6, as amended. \<open>startTime\<close> is assigned the clock value by every setup call that
  gets as far as opening the codec (stream info found, a stream selected, a decoder found)
  while rate emulation is enabled: the first such call and every later one, whether or
  not the codec then opens. A setup call that returns earlier or runs without rate
  emulation, and every other call, leaves it as it was.
\<close>

theorem startTime_set_by_every_setup:
  "(\<forall>d fmt io ret d' ev.
      setupFromAudioData K d fmt io = Inr (ret, d', ev)
      \<longrightarrow> startTime d'
            = (if emulateRate d \<and> 0 \<le> find_stream_info_ret io \<and> streamIndex d' \<noteq> - 1
                  \<and> find_decoder io \<noteq> None
               then gettime io else startTime d))
   \<and> (\<forall>d io ret d' ev.
      setupFromVideoData K d io = Inr (ret, d', ev)
      \<longrightarrow> startTime d'
            = (if emulateRate d \<and> 0 \<le> find_stream_info_ret io \<and> streamIndex d' \<noteq> - 1
                  \<and> find_decoder io \<noteq> None
               then gettime io else startTime d))
   \<and> (\<forall>L d c d' ev.
      \<not> is_setup c \<and> step K L d c = Inr (d', ev) \<longrightarrow> startTime d' = startTime d)"
  using setupFromAudioData_startTime [of K] setupFromVideoData_startTime [of K]
    step_startTime_kept [of _ K]
  by blast

lemma paced_decoder_reached:
  "run ffmpeg_linux example_collab (MediaDecoder_new ffmpeg_linux)
     [EmulateRate, SetupFromAudioData fmt16k example_setup_io] = Inr (paced_decoder, [])"
  by (simp add: step_def emulateRate_on_def setupFromAudioData_def paced_decoder_def
      audio_decoder_def fmt16k_def MediaDecoder_new_def scan_streams.simps Let_def)

theorem startTime_set_by_every_setup_witness:
  "setupFromAudioData ffmpeg_linux paced_decoder fmt16k
       (example_setup_io\<lparr>gettime := 250, open2_ret := - 1\<rparr>)
     = Inr (- 1, paced_decoder\<lparr>startTime := 250\<rparr>, [CodecClose])
   \<and> startTime (paced_decoder\<lparr>startTime := 250\<rparr>) = 250
   \<and> step ffmpeg_linux example_collab paced_decoder
        (DecodeAudio example_frame (example_io\<lparr>pkt_stream_index := 1\<rparr>))
       = Inr (paced_decoder, [PacketUnref, Sleep 100])
   \<and> startTime paced_decoder = 100"
proof -
  have s: "setupFromAudioData ffmpeg_linux paced_decoder fmt16k
       (example_setup_io\<lparr>gettime := 250, open2_ret := - 1\<rparr>)
     = Inr (- 1, paced_decoder\<lparr>startTime := 250\<rparr>, [CodecClose])"
    by (simp add: setupFromAudioData_def paced_decoder_def audio_decoder_def fmt16k_def
        MediaDecoder_new_def scan_streams.simps Let_def)
  have t: "step ffmpeg_linux example_collab paced_decoder
        (DecodeAudio example_frame (example_io\<lparr>pkt_stream_index := 1\<rparr>))
       = Inr (paced_decoder, [PacketUnref, Sleep 100])"
    by (simp add: step_def decode_audio_def rate_emulation_def paced_decoder_def
        decoded_frame_def)
  note T = startTime_set_by_every_setup [of ffmpeg_linux]
  have a: "startTime (paced_decoder\<lparr>startTime := 250\<rparr>)
             = (if emulateRate paced_decoder
                   \<and> 0 \<le> find_stream_info_ret (example_setup_io\<lparr>gettime := 250, open2_ret := - 1\<rparr>)
                   \<and> streamIndex (paced_decoder\<lparr>startTime := 250\<rparr>) \<noteq> - 1
                   \<and> find_decoder (example_setup_io\<lparr>gettime := 250, open2_ret := - 1\<rparr>) \<noteq> None
                then gettime (example_setup_io\<lparr>gettime := 250, open2_ret := - 1\<rparr>)
                else startTime paced_decoder)"
    by (rule T [THEN conjunct1, rule_format, OF s])
  have b: "startTime paced_decoder = startTime paced_decoder"
    by (rule T [THEN conjunct2, THEN conjunct2, rule_format, OF conjI [OF _ t]]) simp
  have c: "startTime paced_decoder = 100" by (simp add: paced_decoder_def)
  from a have "startTime (paced_decoder\<lparr>startTime := 250\<rparr>) = 250"
    by (simp add: paced_decoder_def)
  with s t b c show ?thesis by blast
qed

text \<open>
  C6 as stated fails: a second setup call on a decoder that a first, successful setup
  call left with \<open>startTime\<close> 100 overwrites it with the clock value of the second call.
\<close>

theorem startTime_overwritten_counterexample:
  "emulateRate paced_decoder
   \<and> run ffmpeg_linux example_collab (MediaDecoder_new ffmpeg_linux)
       [EmulateRate, SetupFromAudioData fmt16k example_setup_io] = Inr (paced_decoder, [])
   \<and> setupFromAudioData ffmpeg_linux (emulateRate_on (MediaDecoder_new ffmpeg_linux)) fmt16k
        example_setup_io = Inr (0, paced_decoder, [])
   \<and> startTime paced_decoder = 100
   \<and> setupFromAudioData ffmpeg_linux paced_decoder fmt16k (example_setup_io\<lparr>gettime := 250\<rparr>)
       = Inr (0, paced_decoder\<lparr>startTime := 250\<rparr>, [CodecClose])
   \<and> startTime (paced_decoder\<lparr>startTime := 250\<rparr>) \<noteq> startTime paced_decoder"
  by (simp add: step_def emulateRate_on_def setupFromAudioData_def paced_decoder_def
      audio_decoder_def fmt16k_def MediaDecoder_new_def scan_streams.simps Let_def)


subsection \<open>decode and flush\<close>

lemma not_eagain_eof:
  assumes "errors_negative K" "0 \<le> r"
  shows "r \<noteq> AVERROR_EAGAIN K" "r \<noteq> AVERROR_EOF K" "\<not> r < 0"
  using assms by (auto simp: errors_negative_def)

text \<open>
  C3. In both variants of \<open>decode\<close>, when the read succeeds and the packet belongs to
  another stream than the selected one, the packet is released, the call returns
  \<open>Success\<close>, and the caller's frame is left as it was.
\<close>

theorem decode_other_stream_discarded:
  assumes "errors_negative K" and "0 \<le> read_ret io"
    and "pkt_stream_index io \<noteq> streamIndex d"
  shows "decode_video K d frame io
           = \<lparr>status = Success, frame_out = frame, events = [PacketUnref]\<rparr>
       \<and> decode_audio K d frame io
           = \<lparr>status = Success, frame_out = frame, events = [PacketUnref]\<rparr>"
  using not_eagain_eof [OF assms(1,2)] assms(3)
  by (simp add: decode_video_def decode_audio_def)

theorem decode_other_stream_discarded_witness:
  "errors_negative ffmpeg_linux \<and> 0 \<le> read_ret example_io
   \<and> pkt_stream_index example_io \<noteq> streamIndex audio_decoder
   \<and> decode_video ffmpeg_linux audio_decoder example_frame example_io
        = \<lparr>status = Success, frame_out = example_frame, events = [PacketUnref]\<rparr>
   \<and> decode_audio ffmpeg_linux audio_decoder example_frame example_io
        = \<lparr>status = Success, frame_out = example_frame, events = [PacketUnref]\<rparr>"
proof -
  have a: "0 \<le> read_ret example_io" by simp
  have b: "pkt_stream_index example_io \<noteq> streamIndex audio_decoder" by simp
  from decode_other_stream_discarded [OF errors_negative_ffmpeg_linux a b, of example_frame]
    errors_negative_ffmpeg_linux a b
  show ?thesis by blast
qed

text \<open>
  C1, as amended. In the video \<open>decode\<close>, when the packet read belongs to the selected
  stream and an accelerator is attached: if submission returns a negative result, or
  retrieval returns a negative result other than would-block and end-of-stream, or a frame
  was produced, and the accelerator reports at that place that it has failed, the call
  returns \<open>RestartRequired\<close> (so neither \<open>DecodeError\<close> nor \<open>FrameFinished\<close>).
\<close>

theorem decode_video_accel_failure:
  assumes "errors_negative K" and "0 \<le> read_ret io"
    and "pkt_stream_index io = streamIndex d"
    and "accel d = Some a"
    and "(send_ret io < 0 \<and> hasFailed io AtSubmission)
       \<or> (0 \<le> send_ret io \<and> receive_ret io < 0
            \<and> receive_ret io \<noteq> AVERROR_EAGAIN K \<and> receive_ret io \<noteq> AVERROR_EOF K
            \<and> hasFailed io AtRetrieval)
       \<or> (0 \<le> send_ret io \<and> 0 \<le> receive_ret io \<and> hasFailed io AfterRetrieval)"
  shows "status (decode_video K d frame io) = RestartRequired"
proof -
  note rd = not_eagain_eof [OF assms(1,2)]
  from assms(5) consider
      (submit) "send_ret io < 0" "hasFailed io AtSubmission"
    | (retrieve) "0 \<le> send_ret io" "receive_ret io < 0"
        "receive_ret io \<noteq> AVERROR_EAGAIN K" "receive_ret io \<noteq> AVERROR_EOF K"
        "hasFailed io AtRetrieval"
    | (late) "0 \<le> send_ret io" "0 \<le> receive_ret io" "hasFailed io AfterRetrieval"
    by blast
  then show ?thesis
  proof cases
    case submit
    with rd assms(3,4) show ?thesis by (simp add: decode_video_def)
  next
    case retrieve
    with rd assms(3,4) show ?thesis by (simp add: decode_video_def)
  next
    case late
    with rd assms(3,4) show ?thesis by (simp add: decode_video_def Let_def)
  qed
qed

theorem decode_video_accel_failure_witness:
  "status (decode_video ffmpeg_linux video_decoder example_frame
             (example_io\<lparr>send_ret := - 22\<rparr>)) = RestartRequired
   \<and> status (decode_video ffmpeg_linux video_decoder example_frame
             (example_io\<lparr>receive_ret := - 22\<rparr>)) = RestartRequired
   \<and> status (decode_video ffmpeg_linux video_decoder example_frame example_io)
       = RestartRequired"
proof -
  have e: "errors_negative ffmpeg_linux" by (rule errors_negative_ffmpeg_linux)
  have s1: "status (decode_video ffmpeg_linux video_decoder example_frame
             (example_io\<lparr>send_ret := - 22\<rparr>)) = RestartRequired"
    by (rule decode_video_accel_failure [OF e, where a = "HardwareAccel ''vaapi''"]) simp_all
  have s2: "status (decode_video ffmpeg_linux video_decoder example_frame
             (example_io\<lparr>receive_ret := - 22\<rparr>)) = RestartRequired"
    by (rule decode_video_accel_failure [OF e, where a = "HardwareAccel ''vaapi''"]) simp_all
  have s3: "status (decode_video ffmpeg_linux video_decoder example_frame example_io)
       = RestartRequired"
    by (rule decode_video_accel_failure [OF e, where a = "HardwareAccel ''vaapi''"]) simp_all
  from s1 s2 s3 show ?thesis by blast
qed

text \<open>
  C1 as stated fails when retrieval returns would-block: that result is negative, the
  accelerator is not asked, and the call returns \<open>Success\<close>.
\<close>

theorem decode_video_would_block_counterexample:
  "0 \<le> read_ret (example_io\<lparr>receive_ret := - 11\<rparr>)
   \<and> pkt_stream_index (example_io\<lparr>receive_ret := - 11\<rparr>) = streamIndex video_decoder
   \<and> receive_ret (example_io\<lparr>receive_ret := - 11\<rparr>) < 0
   \<and> accel video_decoder = Some (HardwareAccel ''vaapi'')
   \<and> hasFailed (example_io\<lparr>receive_ret := - 11\<rparr>) AtRetrieval
   \<and> status (decode_video ffmpeg_linux video_decoder example_frame
               (example_io\<lparr>receive_ret := - 11\<rparr>)) = Success"
  by (simp add: decode_video_def)

text \<open>
  C5, as amended. In \<open>flush\<close>, when a frame was produced and the attached accelerator
  reports that it has failed, the call returns \<open>FrameFinished\<close>, not
  \<open>RestartRequired\<close>; it does not extract, and the caller's frame is as retrieval
  left it.
\<close>

theorem flush_failed_accel_skips_extraction:
  assumes "0 \<le> send_ret io" and "0 \<le> receive_ret io"
    and "accel d = Some a" and "hasFailed io AfterRetrieval"
  shows "flush K d frame io
           = \<lparr>status = FrameFinished, frame_out = received io, events = [PacketUnref]\<rparr>"
  using assms by (simp add: flush_def)

theorem flush_failed_accel_skips_extraction_witness:
  "0 \<le> send_ret example_io \<and> 0 \<le> receive_ret example_io
   \<and> accel video_decoder = Some (HardwareAccel ''vaapi'')
   \<and> hasFailed example_io AfterRetrieval
   \<and> flush ffmpeg_linux video_decoder example_frame example_io
       = \<lparr>status = FrameFinished, frame_out = decoded_frame, events = [PacketUnref]\<rparr>"
proof -
  have a: "0 \<le> send_ret example_io" "0 \<le> receive_ret example_io"
    "accel video_decoder = Some (HardwareAccel ''vaapi'')" "hasFailed example_io AfterRetrieval"
    by simp_all
  from flush_failed_accel_skips_extraction [OF a, of ffmpeg_linux example_frame] a
  show ?thesis by simp
qed

text \<open>
  C5 as stated fails: with a failed accelerator \<open>flush\<close> makes no attempt to extract.
\<close>

theorem flush_extraction_counterexample:
  "0 \<le> send_ret example_io \<and> 0 \<le> receive_ret example_io
   \<and> accel video_decoder = Some (HardwareAccel ''vaapi'')
   \<and> hasFailed example_io AfterRetrieval
   \<and> ExtractData \<notin> set (events (flush ffmpeg_linux video_decoder example_frame example_io))
   \<and> frame_out (flush ffmpeg_linux video_decoder example_frame example_io)
       \<noteq> extractData example_io (received example_io)"
  by (simp add: flush_def decoded_frame_def)

text \<open>
  C2. The packet is not released on every path: the audio \<open>decode\<close> returns without
  releasing it when no frame was produced and when submission fails, and the video
  \<open>decode\<close> when submission or retrieval fails.
\<close>

theorem decode_error_paths_keep_packet:
  "pkt_stream_index (example_io\<lparr>pkt_stream_index := 1, receive_ret := - 11\<rparr>)
     = streamIndex audio_decoder
   \<and> decode_audio ffmpeg_linux audio_decoder example_frame
        (example_io\<lparr>pkt_stream_index := 1, receive_ret := - 11\<rparr>)
       = \<lparr>status = Success, frame_out = decoded_frame, events = []\<rparr>
   \<and> decode_audio ffmpeg_linux audio_decoder example_frame
        (example_io\<lparr>pkt_stream_index := 1, send_ret := - 22\<rparr>)
       = \<lparr>status = DecodeError, frame_out = example_frame, events = []\<rparr>
   \<and> pkt_stream_index (example_io\<lparr>send_ret := - 22, hasFailed := \<lambda>s. False\<rparr>)
       = streamIndex video_decoder
   \<and> decode_video ffmpeg_linux video_decoder example_frame
        (example_io\<lparr>send_ret := - 22, hasFailed := \<lambda>s. False\<rparr>)
       = \<lparr>status = DecodeError, frame_out = example_frame, events = []\<rparr>
   \<and> decode_video ffmpeg_linux video_decoder example_frame
        (example_io\<lparr>receive_ret := - 22, hasFailed := \<lambda>s. False\<rparr>)
       = \<lparr>status = DecodeError, frame_out = decoded_frame, events = []\<rparr>"
  by (simp add: decode_audio_def decode_video_def)


subsection \<open>writeToRingBuffer\<close>

lemma rate_emulation_no_resampler: "filter is_NewResampler (rate_emulation K d f io) = []"
  by (simp add: rate_emulation_def Let_def)

lemma decode_no_resampler:
  "filter is_NewResampler (events (decode_video K d f io)) = []"
  "filter is_NewResampler (events (decode_audio K d f io)) = []"
  "filter is_NewResampler (events (flush K d f io)) = []"
  by (simp_all add: decode_video_def decode_audio_def flush_def Let_def
      rate_emulation_no_resampler)

lemma setup_resampler_kept:
  "setupFromAudioData K d fmt io = Inr (ret, d', ev)
     \<Longrightarrow> resampler d' = resampler d \<and> filter is_NewResampler ev = []"
  "setupFromVideoData K d io = Inr (ret, d', ev)
     \<Longrightarrow> resampler d' = resampler d \<and> filter is_NewResampler ev = []"
  by (simp add: setupFromAudioData_def setupFromVideoData_def Let_def split: if_splits; auto)+

lemma writeToRingBuffer_mismatch:
  assumes "decoderCtx d = Some ctx"
    and "unsigned_of_int (frame_sample_rate frame) \<noteq> fmt_sample_rate out"
  shows "\<exists>d'. writeToRingBuffer K L d frame out
                = Inr (d', (if resampler d = None then [NewResampler out] else [])
                           @ [RingBufferPut (resamplingBuff d')])
           \<and> resampler d' = Some (case resampler d of None \<Rightarrow> Resampler out | Some r \<Rightarrow> r)
           \<and> resamplingBuff d'
               = resample L (case resampler d of None \<Rightarrow> Resampler out | Some r \<Rightarrow> r)
                   (decBuff d')
                   (resize (setFormat (resamplingBuff d)
                              \<lparr>fmt_sample_rate = fmt_sample_rate out,
                               fmt_nb_channels = unsigned_of_int (ctx_channels ctx)\<rparr>)
                      (size_t_of_int (frame_nb_samples frame)))"
  using assms by (simp add: writeToRingBuffer_def Let_def)

lemma writeToRingBuffer_match:
  assumes "decoderCtx d = Some ctx"
    and "unsigned_of_int (frame_sample_rate frame) = fmt_sample_rate out"
  shows "\<exists>d'. writeToRingBuffer K L d frame out = Inr (d', [RingBufferPut (decBuff d')])
           \<and> resampler d' = resampler d \<and> resamplingBuff d' = resamplingBuff d"
  using assms by (simp add: writeToRingBuffer_def Let_def)

lemma writeToRingBuffer_ctx:
  "writeToRingBuffer K L d frame out = Inr (d', ev) \<Longrightarrow> \<exists>ctx. decoderCtx d = Some ctx"
  by (cases "decoderCtx d") (simp_all add: writeToRingBuffer_def)

lemma step_resampler:
  assumes "step K L d c = Inr (d', ev)"
  shows "(resampler d \<noteq> None \<longrightarrow> resampler d' = resampler d \<and> filter is_NewResampler ev = [])
       \<and> (resampler d = None \<and> \<not> mismatching c
            \<longrightarrow> resampler d' = None \<and> filter is_NewResampler ev = [])
       \<and> (resampler d = None \<and> mismatching c
            \<longrightarrow> resampler d' \<noteq> None \<and> length (filter is_NewResampler ev) = 1)"
proof (cases c)
  case (SetupFromAudioData fmt io)
  with assms obtain ret where "setupFromAudioData K d fmt io = Inr (ret, d', ev)"
    by (auto simp: step_def split: sum.splits)
  from setup_resampler_kept(1) [OF this] SetupFromAudioData show ?thesis by simp
next
  case (SetupFromVideoData io)
  with assms obtain ret where "setupFromVideoData K d io = Inr (ret, d', ev)"
    by (auto simp: step_def split: sum.splits)
  from setup_resampler_kept(2) [OF this] SetupFromVideoData show ?thesis by simp
next
  case (WriteToRingBuffer frame out)
  with assms have w: "writeToRingBuffer K L d frame out = Inr (d', ev)"
    by (simp add: step_def)
  from writeToRingBuffer_ctx [OF w] obtain ctx where ctx: "decoderCtx d = Some ctx" ..
  show ?thesis
  proof (cases "unsigned_of_int (frame_sample_rate frame) = fmt_sample_rate out")
    case True
    from writeToRingBuffer_match [OF ctx True, of K L] w WriteToRingBuffer True
    show ?thesis by auto
  next
    case False
    from writeToRingBuffer_mismatch [OF ctx False, of K L] w WriteToRingBuffer False
    show ?thesis by (cases "resampler d") auto
  qed
qed (use assms in \<open>auto simp: step_def openInput_frame enableAccel_set_frame
      setInterruptCallback_def setIOContext_def emulateRate_on_def decode_no_resampler\<close>)

lemma run_resampler_kept:
  "resampler d = Some r \<Longrightarrow> run K L d cs = Inr (d', evs)
     \<Longrightarrow> resampler d' = Some r \<and> filter is_NewResampler evs = []"
proof (induction cs arbitrary: d evs)
  case Nil
  then show ?case by simp
next
  case (Cons c cs)
  from Cons.prems(2) obtain d1 ev1 ev2 where
    s: "step K L d c = Inr (d1, ev1)" and r: "run K L d1 cs = Inr (d', ev2)"
    and e: "evs = ev1 @ ev2"
    by (auto split: sum.splits)
  from step_resampler [OF s] Cons.prems(1)
  have d1: "resampler d1 = Some r" and n1: "filter is_NewResampler ev1 = []" by simp_all
  from Cons.IH [OF d1 r] n1 e show ?case by simp
qed

lemma run_resampler_built_once:
  "resampler d = None \<Longrightarrow> run K L d cs = Inr (d', evs)
     \<Longrightarrow> length (filter is_NewResampler evs) = (if \<exists>c\<in>set cs. mismatching c then 1 else 0)"
proof (induction cs arbitrary: d evs)
  case Nil
  then show ?case by simp
next
  case (Cons c cs)
  from Cons.prems(2) obtain d1 ev1 ev2 where
    s: "step K L d c = Inr (d1, ev1)" and r: "run K L d1 cs = Inr (d', ev2)"
    and e: "evs = ev1 @ ev2"
    by (auto split: sum.splits)
  show ?case
  proof (cases "mismatching c")
    case True
    with step_resampler [OF s] Cons.prems(1)
    obtain r1 where d1: "resampler d1 = Some r1" and n1: "length (filter is_NewResampler ev1) = 1"
      by auto
    from run_resampler_kept [OF d1 r] have "filter is_NewResampler ev2 = []" by simp
    with n1 e True show ?thesis by simp
  next
    case False
    with step_resampler [OF s] Cons.prems(1)
    have d1: "resampler d1 = None" and n1: "filter is_NewResampler ev1 = []" by simp_all
    from Cons.IH [OF d1 r] n1 e False show ?thesis by simp
  qed
qed


lemma writeToRingBuffer_decBuff:
  assumes "writeToRingBuffer K L d frame out = Inr (d', ev)"
    and "decoderCtx d = Some ctx"
  shows "decBuff d'
           = (if ctx_sample_fmt ctx = AV_SAMPLE_FMT_FLTP K
              then convertFloatPlanarToSigned16 L (frame_data frame)
                     (frame_nb_samples frame) (ctx_channels ctx)
                     (resize
                        (setFormat (decBuff d)
                           \<lparr>fmt_sample_rate = unsigned_of_int (frame_sample_rate frame),
                            fmt_nb_channels = unsigned_of_int (ctx_channels ctx)\<rparr>)
                        (size_t_of_int (frame_nb_samples frame)))
              else if ctx_sample_fmt ctx = AV_SAMPLE_FMT_S16 K
              then deinterleave L (frame_data frame)
                     (frame_nb_samples frame) (ctx_channels ctx)
                     (resize
                        (setFormat (decBuff d)
                           \<lparr>fmt_sample_rate = unsigned_of_int (frame_sample_rate frame),
                            fmt_nb_channels = unsigned_of_int (ctx_channels ctx)\<rparr>)
                        (size_t_of_int (frame_nb_samples frame)))
              else resize
                     (setFormat (decBuff d)
                        \<lparr>fmt_sample_rate = unsigned_of_int (frame_sample_rate frame),
                         fmt_nb_channels = unsigned_of_int (ctx_channels ctx)\<rparr>)
                     (size_t_of_int (frame_nb_samples frame)))"
proof (cases "unsigned_of_int (frame_sample_rate frame) = fmt_sample_rate out")
  case True
  from assms True show ?thesis
    by (cases "ctx_sample_fmt ctx = AV_SAMPLE_FMT_FLTP K";
        cases "ctx_sample_fmt ctx = AV_SAMPLE_FMT_S16 K")
       (auto simp: writeToRingBuffer_def Let_def)
next
  case False
  from assms False show ?thesis
    by (cases "ctx_sample_fmt ctx = AV_SAMPLE_FMT_FLTP K";
        cases "ctx_sample_fmt ctx = AV_SAMPLE_FMT_S16 K")
       (auto simp: writeToRingBuffer_def Let_def)
qed

lemma writeToRingBuffer_match_frame:
  assumes "writeToRingBuffer K L d frame out = Inr (d', ev)"
    and "unsigned_of_int (frame_sample_rate frame) = fmt_sample_rate out"
  shows "d' = d\<lparr>decBuff := decBuff d'\<rparr>"
  using assms
  by (cases "decoderCtx d") (auto simp: writeToRingBuffer_def Let_def)

lemma writeToRingBuffer_mismatch_frame:
  assumes "writeToRingBuffer K L d frame out = Inr (d', ev)"
    and "unsigned_of_int (frame_sample_rate frame) \<noteq> fmt_sample_rate out"
  shows "d' = d\<lparr>decBuff := decBuff d', resampler := resampler d',
                 resamplingBuff := resamplingBuff d'\<rparr>"
  using assms
  by (cases "decoderCtx d") (auto simp: writeToRingBuffer_def Let_def)


lemma resampling_decoder_reached:
  "writeToRingBuffer ffmpeg_linux example_collab audio_decoder decoded_frame fmt16k
     = Inr (resampling_decoder,
            [NewResampler fmt16k,
             RingBufferPut \<lparr>buf_format = \<lparr>fmt_sample_rate = 16000, fmt_nb_channels = 1\<rparr>,
                            buf_frames = 960, buf_samples = [[2]]\<rparr>])"
  by (simp add: writeToRingBuffer_def resampling_decoder_def audio_decoder_def
      MediaDecoder_new_def example_ctx_def example_collab_def decoded_frame_def fmt16k_def
      unsigned_of_int_def size_t_of_int_def setFormat_def resize_def Let_def)

text \<open>
  C8. Over any sequence of calls on a decoder that has no resampler yet, a resampler is
  built exactly once if some call of \<open>writeToRingBuffer\<close> has a frame whose sample rate
  differs from the output format's, and never otherwise; it is built by the first such
  call and used by the later ones. In every call the decoding buffer becomes the
  post-conversion buffer: the old one set to the frame's sample rate and the context's
  channel count, sized to the frame's samples, and filled by the conversion the sample
  format selects. A call with differing rates puts the resampling buffer into the ring
  buffer: what the resampler makes of the post-conversion buffer and of the old
  resampling buffer set to the output format's sample rate and the context's channel
  count (which is its format, the resampler leaving the format of its output buffer
  alone). A call with equal rates puts the post-conversion buffer. Nothing else of the
  decoder changes.
\<close>

theorem resampler_built_once:
  "(\<forall>d cs d' evs.
      resampler d = None \<and> run K L d cs = Inr (d', evs)
      \<longrightarrow> length (filter is_NewResampler evs) = (if \<exists>c\<in>set cs. mismatching c then 1 else 0))
   \<and> (\<forall>d ctx frame out.
      decoderCtx d = Some ctx
      \<and> unsigned_of_int (frame_sample_rate frame) \<noteq> fmt_sample_rate out
      \<longrightarrow> (\<exists>d'. writeToRingBuffer K L d frame out
                   = Inr (d', (if resampler d = None then [NewResampler out] else [])
                              @ [RingBufferPut (resamplingBuff d')])
              \<and> resampler d' = Some (case resampler d of None \<Rightarrow> Resampler out | Some r \<Rightarrow> r)
              \<and> ((\<forall>r a b. buf_format (resample L r a b) = buf_format b)
                   \<longrightarrow> buf_format (resamplingBuff d')
                         = \<lparr>fmt_sample_rate = fmt_sample_rate out,
                            fmt_nb_channels = unsigned_of_int (ctx_channels ctx)\<rparr>)
              \<and> resamplingBuff d'
                  = resample L (case resampler d of None \<Rightarrow> Resampler out | Some r \<Rightarrow> r)
                      (decBuff d')
                      (resize (setFormat (resamplingBuff d)
                                 \<lparr>fmt_sample_rate = fmt_sample_rate out,
                                  fmt_nb_channels = unsigned_of_int (ctx_channels ctx)\<rparr>)
                         (size_t_of_int (frame_nb_samples frame)))
              \<and> decBuff d'
                  = (if ctx_sample_fmt ctx = AV_SAMPLE_FMT_FLTP K
                      then convertFloatPlanarToSigned16 L (frame_data frame)
                             (frame_nb_samples frame) (ctx_channels ctx)
                             (resize
                                (setFormat (decBuff d)
                                   \<lparr>fmt_sample_rate = unsigned_of_int (frame_sample_rate frame),
                                    fmt_nb_channels = unsigned_of_int (ctx_channels ctx)\<rparr>)
                                (size_t_of_int (frame_nb_samples frame)))
                      else if ctx_sample_fmt ctx = AV_SAMPLE_FMT_S16 K
                      then deinterleave L (frame_data frame)
                             (frame_nb_samples frame) (ctx_channels ctx)
                             (resize
                                (setFormat (decBuff d)
                                   \<lparr>fmt_sample_rate = unsigned_of_int (frame_sample_rate frame),
                                    fmt_nb_channels = unsigned_of_int (ctx_channels ctx)\<rparr>)
                                (size_t_of_int (frame_nb_samples frame)))
                      else resize
                             (setFormat (decBuff d)
                                \<lparr>fmt_sample_rate = unsigned_of_int (frame_sample_rate frame),
                                 fmt_nb_channels = unsigned_of_int (ctx_channels ctx)\<rparr>)
                             (size_t_of_int (frame_nb_samples frame)))
              \<and> d' = d\<lparr>decBuff := decBuff d', resampler := resampler d',
                          resamplingBuff := resamplingBuff d'\<rparr>))
   \<and> (\<forall>d ctx frame out.
      decoderCtx d = Some ctx
      \<and> unsigned_of_int (frame_sample_rate frame) = fmt_sample_rate out
      \<longrightarrow> (\<exists>d'. writeToRingBuffer K L d frame out = Inr (d', [RingBufferPut (decBuff d')])
              \<and> resampler d' = resampler d
              \<and> decBuff d'
                  = (if ctx_sample_fmt ctx = AV_SAMPLE_FMT_FLTP K
                      then convertFloatPlanarToSigned16 L (frame_data frame)
                             (frame_nb_samples frame) (ctx_channels ctx)
                             (resize
                                (setFormat (decBuff d)
                                   \<lparr>fmt_sample_rate = unsigned_of_int (frame_sample_rate frame),
                                    fmt_nb_channels = unsigned_of_int (ctx_channels ctx)\<rparr>)
                                (size_t_of_int (frame_nb_samples frame)))
                      else if ctx_sample_fmt ctx = AV_SAMPLE_FMT_S16 K
                      then deinterleave L (frame_data frame)
                             (frame_nb_samples frame) (ctx_channels ctx)
                             (resize
                                (setFormat (decBuff d)
                                   \<lparr>fmt_sample_rate = unsigned_of_int (frame_sample_rate frame),
                                    fmt_nb_channels = unsigned_of_int (ctx_channels ctx)\<rparr>)
                                (size_t_of_int (frame_nb_samples frame)))
                      else resize
                             (setFormat (decBuff d)
                                \<lparr>fmt_sample_rate = unsigned_of_int (frame_sample_rate frame),
                                 fmt_nb_channels = unsigned_of_int (ctx_channels ctx)\<rparr>)
                             (size_t_of_int (frame_nb_samples frame)))
              \<and> d' = d\<lparr>decBuff := decBuff d'\<rparr>))"
proof (intro conjI allI impI)
  fix d d' :: MediaDecoder and cs :: "call list" and evs :: "event list"
  assume "resampler d = None \<and> run K L d cs = Inr (d', evs)"
  then show "length (filter is_NewResampler evs)
               = (if \<exists>c\<in>set cs. mismatching c then 1 else 0)"
    using run_resampler_built_once [of d K L cs d' evs] by simp
next
  fix d :: MediaDecoder and ctx :: AVCodecContext and frame :: AVFrame and out :: AudioFormat
  assume a: "decoderCtx d = Some ctx
      \<and> unsigned_of_int (frame_sample_rate frame) \<noteq> fmt_sample_rate out"
  then have ctx: "decoderCtx d = Some ctx"
    and ne: "unsigned_of_int (frame_sample_rate frame) \<noteq> fmt_sample_rate out"
    by simp_all
  from writeToRingBuffer_mismatch [OF ctx ne, of K L]
  obtain d' where w: "writeToRingBuffer K L d frame out
                = Inr (d', (if resampler d = None then [NewResampler out] else [])
                           @ [RingBufferPut (resamplingBuff d')])"
    and r: "resampler d' = Some (case resampler d of None \<Rightarrow> Resampler out | Some r \<Rightarrow> r)"
    and b: "resamplingBuff d'
               = resample L (case resampler d of None \<Rightarrow> Resampler out | Some r \<Rightarrow> r)
                   (decBuff d')
                   (resize (setFormat (resamplingBuff d)
                              \<lparr>fmt_sample_rate = fmt_sample_rate out,
                               fmt_nb_channels = unsigned_of_int (ctx_channels ctx)\<rparr>)
                      (size_t_of_int (frame_nb_samples frame)))"
    by blast
  have f: "(\<forall>r a b. buf_format (resample L r a b) = buf_format b)
                   \<longrightarrow> buf_format (resamplingBuff d')
                         = \<lparr>fmt_sample_rate = fmt_sample_rate out,
                            fmt_nb_channels = unsigned_of_int (ctx_channels ctx)\<rparr>"
    by (simp add: b setFormat_def resize_def)
  note c = writeToRingBuffer_decBuff [OF w ctx]
  note g = writeToRingBuffer_mismatch_frame [OF w ne]
  from w r f b c g
  show "\<exists>d'. writeToRingBuffer K L d frame out
                   = Inr (d', (if resampler d = None then [NewResampler out] else [])
                              @ [RingBufferPut (resamplingBuff d')])
              \<and> resampler d' = Some (case resampler d of None \<Rightarrow> Resampler out | Some r \<Rightarrow> r)
              \<and> ((\<forall>r a b. buf_format (resample L r a b) = buf_format b)
                   \<longrightarrow> buf_format (resamplingBuff d')
                         = \<lparr>fmt_sample_rate = fmt_sample_rate out,
                            fmt_nb_channels = unsigned_of_int (ctx_channels ctx)\<rparr>)
              \<and> resamplingBuff d'
                  = resample L (case resampler d of None \<Rightarrow> Resampler out | Some r \<Rightarrow> r)
                      (decBuff d')
                      (resize (setFormat (resamplingBuff d)
                                 \<lparr>fmt_sample_rate = fmt_sample_rate out,
                                  fmt_nb_channels = unsigned_of_int (ctx_channels ctx)\<rparr>)
                         (size_t_of_int (frame_nb_samples frame)))
              \<and> decBuff d'
                  = (if ctx_sample_fmt ctx = AV_SAMPLE_FMT_FLTP K
                      then convertFloatPlanarToSigned16 L (frame_data frame)
                             (frame_nb_samples frame) (ctx_channels ctx)
                             (resize
                                (setFormat (decBuff d)
                                   \<lparr>fmt_sample_rate = unsigned_of_int (frame_sample_rate frame),
                                    fmt_nb_channels = unsigned_of_int (ctx_channels ctx)\<rparr>)
                                (size_t_of_int (frame_nb_samples frame)))
                      else if ctx_sample_fmt ctx = AV_SAMPLE_FMT_S16 K
                      then deinterleave L (frame_data frame)
                             (frame_nb_samples frame) (ctx_channels ctx)
                             (resize
                                (setFormat (decBuff d)
                                   \<lparr>fmt_sample_rate = unsigned_of_int (frame_sample_rate frame),
                                    fmt_nb_channels = unsigned_of_int (ctx_channels ctx)\<rparr>)
                                (size_t_of_int (frame_nb_samples frame)))
                      else resize
                             (setFormat (decBuff d)
                                \<lparr>fmt_sample_rate = unsigned_of_int (frame_sample_rate frame),
                                 fmt_nb_channels = unsigned_of_int (ctx_channels ctx)\<rparr>)
                             (size_t_of_int (frame_nb_samples frame)))
              \<and> d' = d\<lparr>decBuff := decBuff d', resampler := resampler d',
                          resamplingBuff := resamplingBuff d'\<rparr>"
    by blast
next
  fix d :: MediaDecoder and ctx :: AVCodecContext and frame :: AVFrame and out :: AudioFormat
  assume "decoderCtx d = Some ctx
      \<and> unsigned_of_int (frame_sample_rate frame) = fmt_sample_rate out"
  then have ctx: "decoderCtx d = Some ctx"
    and eq: "unsigned_of_int (frame_sample_rate frame) = fmt_sample_rate out"
    by simp_all
  from writeToRingBuffer_match [OF ctx eq, of K L]
  obtain d' where w: "writeToRingBuffer K L d frame out = Inr (d', [RingBufferPut (decBuff d')])"
    and r: "resampler d' = resampler d"
    by blast
  note c = writeToRingBuffer_decBuff [OF w ctx]
  note g = writeToRingBuffer_match_frame [OF w eq]
  from w r c g
  show "\<exists>d'. writeToRingBuffer K L d frame out = Inr (d', [RingBufferPut (decBuff d')])
              \<and> resampler d' = resampler d
              \<and> decBuff d'
                  = (if ctx_sample_fmt ctx = AV_SAMPLE_FMT_FLTP K
                      then convertFloatPlanarToSigned16 L (frame_data frame)
                             (frame_nb_samples frame) (ctx_channels ctx)
                             (resize
                                (setFormat (decBuff d)
                                   \<lparr>fmt_sample_rate = unsigned_of_int (frame_sample_rate frame),
                                    fmt_nb_channels = unsigned_of_int (ctx_channels ctx)\<rparr>)
                                (size_t_of_int (frame_nb_samples frame)))
                      else if ctx_sample_fmt ctx = AV_SAMPLE_FMT_S16 K
                      then deinterleave L (frame_data frame)
                             (frame_nb_samples frame) (ctx_channels ctx)
                             (resize
                                (setFormat (decBuff d)
                                   \<lparr>fmt_sample_rate = unsigned_of_int (frame_sample_rate frame),
                                    fmt_nb_channels = unsigned_of_int (ctx_channels ctx)\<rparr>)
                                (size_t_of_int (frame_nb_samples frame)))
                      else resize
                             (setFormat (decBuff d)
                                \<lparr>fmt_sample_rate = unsigned_of_int (frame_sample_rate frame),
                                 fmt_nb_channels = unsigned_of_int (ctx_channels ctx)\<rparr>)
                             (size_t_of_int (frame_nb_samples frame)))
              \<and> d' = d\<lparr>decBuff := decBuff d'\<rparr>"
    by blast
qed

text \<open>
  C10. Once a decoder has a resampler, no sequence of calls builds another or replaces
  it. A later call of \<open>writeToRingBuffer\<close> with differing rates resamples with that same
  resampler whatever output format it is given, and the resampler is the one built for
  the output format of the call that found none.
\<close>

theorem resampler_never_rebuilt:
  "(\<forall>d r cs d' evs.
      resampler d = Some r \<and> run K L d cs = Inr (d', evs)
      \<longrightarrow> resampler d' = Some r \<and> filter is_NewResampler evs = [])
   \<and> (\<forall>d ctx r frame out.
      decoderCtx d = Some ctx \<and> resampler d = Some r
      \<and> unsigned_of_int (frame_sample_rate frame) \<noteq> fmt_sample_rate out
      \<longrightarrow> (\<exists>d'. writeToRingBuffer K L d frame out
                   = Inr (d', [RingBufferPut (resamplingBuff d')])
              \<and> resampler d' = Some r
              \<and> resamplingBuff d'
                  = resample L r (decBuff d')
                      (resize (setFormat (resamplingBuff d)
                                 \<lparr>fmt_sample_rate = fmt_sample_rate out,
                                  fmt_nb_channels = unsigned_of_int (ctx_channels ctx)\<rparr>)
                         (size_t_of_int (frame_nb_samples frame)))))
   \<and> (\<forall>d ctx frame out.
      decoderCtx d = Some ctx \<and> resampler d = None
      \<and> unsigned_of_int (frame_sample_rate frame) \<noteq> fmt_sample_rate out
      \<longrightarrow> (\<exists>d' ev. writeToRingBuffer K L d frame out = Inr (d', ev)
              \<and> resampler d' = Some (Resampler out)))"
proof (intro conjI allI impI)
  fix d d' :: MediaDecoder and r :: Resampler and cs :: "call list" and evs :: "event list"
  assume a: "resampler d = Some r \<and> run K L d cs = Inr (d', evs)"
  from run_resampler_kept [of d r K L cs d' evs] a
  show "resampler d' = Some r" and "filter is_NewResampler evs = []" by simp_all
next
  fix d :: MediaDecoder and ctx :: AVCodecContext and r :: Resampler
    and frame :: AVFrame and out :: AudioFormat
  assume a: "decoderCtx d = Some ctx \<and> resampler d = Some r
      \<and> unsigned_of_int (frame_sample_rate frame) \<noteq> fmt_sample_rate out"
  with writeToRingBuffer_mismatch [of d ctx frame out K L]
  show "\<exists>d'. writeToRingBuffer K L d frame out
                   = Inr (d', [RingBufferPut (resamplingBuff d')])
              \<and> resampler d' = Some r
              \<and> resamplingBuff d'
                  = resample L r (decBuff d')
                      (resize (setFormat (resamplingBuff d)
                                 \<lparr>fmt_sample_rate = fmt_sample_rate out,
                                  fmt_nb_channels = unsigned_of_int (ctx_channels ctx)\<rparr>)
                         (size_t_of_int (frame_nb_samples frame)))"
    by simp
next
  fix d :: MediaDecoder and ctx :: AVCodecContext and frame :: AVFrame and out :: AudioFormat
  assume a: "decoderCtx d = Some ctx \<and> resampler d = None
      \<and> unsigned_of_int (frame_sample_rate frame) \<noteq> fmt_sample_rate out"
  with writeToRingBuffer_mismatch [of d ctx frame out K L]
  show "\<exists>d' ev. writeToRingBuffer K L d frame out = Inr (d', ev)
              \<and> resampler d' = Some (Resampler out)"
    by auto
qed

lemma example_mismatch [simp]:
  "mismatching (WriteToRingBuffer decoded_frame fmt16k)"
  "mismatching (WriteToRingBuffer decoded_frame fmt8k)"
  "\<not> mismatching (WriteToRingBuffer decoded_frame fmt48k)"
  by (simp_all add: decoded_frame_def fmt16k_def fmt8k_def fmt48k_def unsigned_of_int_def)

lemma example_collab_keeps_format:
  "\<forall>r a b. buf_format (resample example_collab r a b) = buf_format b"
  by (simp add: example_collab_def)

theorem resampler_built_once_witness:
  "resampler audio_decoder = None
   \<and> map_sum id (length \<circ> filter is_NewResampler \<circ> snd)
        (run ffmpeg_linux example_collab audio_decoder
           [WriteToRingBuffer decoded_frame fmt16k, WriteToRingBuffer decoded_frame fmt16k,
            WriteToRingBuffer decoded_frame fmt48k]) = Inr 1
   \<and> writeToRingBuffer ffmpeg_linux example_collab audio_decoder decoded_frame fmt16k
       = Inr (resampling_decoder,
              [NewResampler fmt16k,
               RingBufferPut \<lparr>buf_format = \<lparr>fmt_sample_rate = 16000, fmt_nb_channels = 1\<rparr>,
                              buf_frames = 960, buf_samples = [[2]]\<rparr>])
   \<and> buf_format (resamplingBuff resampling_decoder)
       = \<lparr>fmt_sample_rate = 16000, fmt_nb_channels = 1\<rparr>
   \<and> map_sum id snd
        (writeToRingBuffer ffmpeg_linux example_collab audio_decoder decoded_frame fmt48k)
       = Inr [RingBufferPut \<lparr>buf_format = \<lparr>fmt_sample_rate = 48000, fmt_nb_channels = 1\<rparr>,
                             buf_frames = 960, buf_samples = [[2]]\<rparr>]"
proof -
  note T = resampler_built_once [of ffmpeg_linux example_collab]
  have n: "resampler audio_decoder = None"
    by (simp add: audio_decoder_def MediaDecoder_new_def)
  have c: "decoderCtx audio_decoder
             = Some (example_ctx\<lparr>ctx_thread_count := 2, ctx_channels := 1,
                                   ctx_sample_rate := 16000\<rparr>)"
    by (simp add: audio_decoder_def)
  have "\<exists>d' evs. run ffmpeg_linux example_collab audio_decoder
           [WriteToRingBuffer decoded_frame fmt16k, WriteToRingBuffer decoded_frame fmt16k,
            WriteToRingBuffer decoded_frame fmt48k] = Inr (d', evs)"
    by (simp add: step_def writeToRingBuffer_def audio_decoder_def MediaDecoder_new_def
        Let_def)
  then obtain d' evs where r: "run ffmpeg_linux example_collab audio_decoder
           [WriteToRingBuffer decoded_frame fmt16k, WriteToRingBuffer decoded_frame fmt16k,
            WriteToRingBuffer decoded_frame fmt48k] = Inr (d', evs)" by blast
  have "length (filter is_NewResampler evs)
          = (if \<exists>c\<in>set [WriteToRingBuffer decoded_frame fmt16k,
                            WriteToRingBuffer decoded_frame fmt16k,
                            WriteToRingBuffer decoded_frame fmt48k]. mismatching c
             then 1 else 0)"
    by (rule T [THEN conjunct1, rule_format, OF conjI [OF n r]])
  moreover have "\<exists>c\<in>set [WriteToRingBuffer decoded_frame fmt16k,
                            WriteToRingBuffer decoded_frame fmt16k,
                            WriteToRingBuffer decoded_frame fmt48k]. mismatching c"
    by (simp del: mismatching.simps)
  ultimately have "length (filter is_NewResampler evs) = 1" by (simp only: if_True)
  with r have a: "map_sum id (length \<circ> filter is_NewResampler \<circ> snd)
        (run ffmpeg_linux example_collab audio_decoder
           [WriteToRingBuffer decoded_frame fmt16k, WriteToRingBuffer decoded_frame fmt16k,
            WriteToRingBuffer decoded_frame fmt48k]) = Inr 1" by simp
  have m: "unsigned_of_int (frame_sample_rate decoded_frame) \<noteq> fmt_sample_rate fmt16k"
    by (simp add: decoded_frame_def fmt16k_def unsigned_of_int_def)
  from T [THEN conjunct2, THEN conjunct1, rule_format, OF conjI [OF c m]]
    resampling_decoder_reached example_collab_keeps_format
  have b: "buf_format (resamplingBuff resampling_decoder)
       = \<lparr>fmt_sample_rate = fmt_sample_rate fmt16k,
          fmt_nb_channels = unsigned_of_int (ctx_channels
             (example_ctx\<lparr>ctx_thread_count := 2, ctx_channels := 1,
                           ctx_sample_rate := 16000\<rparr>))\<rparr>"
    by auto
  then have b': "buf_format (resamplingBuff resampling_decoder)
       = \<lparr>fmt_sample_rate = 16000, fmt_nb_channels = 1\<rparr>"
    by (simp add: fmt16k_def unsigned_of_int_def)
  have q: "unsigned_of_int (frame_sample_rate decoded_frame) = fmt_sample_rate fmt48k"
    by (simp add: decoded_frame_def fmt48k_def unsigned_of_int_def)
  from T [THEN conjunct2, THEN conjunct2, rule_format, OF conjI [OF c q]]
  obtain d' where w: "writeToRingBuffer ffmpeg_linux example_collab audio_decoder
                        decoded_frame fmt48k = Inr (d', [RingBufferPut (decBuff d')])"
    and p: "decBuff d'
              = deinterleave example_collab (frame_data decoded_frame)
                  (frame_nb_samples decoded_frame) 1
                  (resize
                     (setFormat (decBuff audio_decoder)
                        \<lparr>fmt_sample_rate = unsigned_of_int (frame_sample_rate decoded_frame),
                         fmt_nb_channels = unsigned_of_int 1\<rparr>)
                     (size_t_of_int (frame_nb_samples decoded_frame)))"
    by (auto simp: example_ctx_def)
  from p have "decBuff d'
      = \<lparr>buf_format = \<lparr>fmt_sample_rate = 48000, fmt_nb_channels = 1\<rparr>,
         buf_frames = 960, buf_samples = [[2]]\<rparr>"
    by (simp add: example_collab_def decoded_frame_def audio_decoder_def MediaDecoder_new_def
        unsigned_of_int_def size_t_of_int_def setFormat_def resize_def)
  with w have e: "map_sum id snd
        (writeToRingBuffer ffmpeg_linux example_collab audio_decoder decoded_frame fmt48k)
       = Inr [RingBufferPut \<lparr>buf_format = \<lparr>fmt_sample_rate = 48000, fmt_nb_channels = 1\<rparr>,
                             buf_frames = 960, buf_samples = [[2]]\<rparr>]"
    by simp
  from n a resampling_decoder_reached b' e show ?thesis by blast
qed

theorem resampler_never_rebuilt_witness:
  "resampler resampling_decoder = Some (Resampler fmt16k)
   \<and> map_sum id (resampler \<circ> fst)
        (run ffmpeg_linux example_collab resampling_decoder
           [WriteToRingBuffer decoded_frame fmt8k, SetupFromAudioData fmt8k example_setup_io,
            WriteToRingBuffer decoded_frame fmt8k]) = Inr (Some (Resampler fmt16k))
   \<and> map_sum id (filter is_NewResampler \<circ> snd)
        (run ffmpeg_linux example_collab resampling_decoder
           [WriteToRingBuffer decoded_frame fmt8k, SetupFromAudioData fmt8k example_setup_io,
            WriteToRingBuffer decoded_frame fmt8k]) = Inr []"
proof -
  note T = resampler_never_rebuilt [of ffmpeg_linux example_collab]
  have s: "resampler resampling_decoder = Some (Resampler fmt16k)"
    by (simp add: resampling_decoder_def)
  have "\<exists>d' evs. run ffmpeg_linux example_collab resampling_decoder
           [WriteToRingBuffer decoded_frame fmt8k, SetupFromAudioData fmt8k example_setup_io,
            WriteToRingBuffer decoded_frame fmt8k] = Inr (d', evs)"
    by (simp add: step_def writeToRingBuffer_def setupFromAudioData_def
        resampling_decoder_def audio_decoder_def MediaDecoder_new_def scan_streams.simps
        Let_def)
  then obtain d' evs where r: "run ffmpeg_linux example_collab resampling_decoder
           [WriteToRingBuffer decoded_frame fmt8k, SetupFromAudioData fmt8k example_setup_io,
            WriteToRingBuffer decoded_frame fmt8k] = Inr (d', evs)" by blast
  have "resampler d' = Some (Resampler fmt16k) \<and> filter is_NewResampler evs = []"
    by (rule T [THEN conjunct1, rule_format, OF conjI [OF s r]])
  with r s show ?thesis by simp
qed


end
